theory Spec2Isabelle
  imports Complex_Main "HOL-Library.AList" "HOL-Library.Multiset" "HOL-Library.Sublist"
begin

section \<open>JavaScript values and library functions used by the extension\<close>

text \<open>
  A property read in JavaScript yields \<open>undefined\<close> when the property is absent,
  \<open>null\<close> when JSON carried a null, and a value otherwise. The three cases are kept
  apart because the source tests \<open>!== null\<close> in some places and truthiness in others.
  Numbers are IEEE doubles in the source; they are modelled as exact reals, so rounding,
  \<open>NaN\<close> and overflow to \<open>Infinity\<close> are outside the model.
\<close>

datatype 'a jsval = Undefined | Null | Val 'a

text \<open>
  \<open>Array.prototype.sort(cmp)\<close>: a stable sort (ECMAScript 2019) driven by a comparator
  whose result is negative, zero or positive. It is modelled as a stable insertion sort:
  an element is placed in front of the first element it does not compare greater than.
\<close>

fun insert_sorted :: "('a \<Rightarrow> 'a \<Rightarrow> int) \<Rightarrow> 'a \<Rightarrow> 'a list \<Rightarrow> 'a list" where
  "insert_sorted cmp x [] = [x]"
| "insert_sorted cmp x (y # ys) =
     (if cmp x y \<le> 0 then x # y # ys else y # insert_sorted cmp x ys)"

definition array_sort :: "('a \<Rightarrow> 'a \<Rightarrow> int) \<Rightarrow> 'a list \<Rightarrow> 'a list" where
  "array_sort cmp xs = foldr (insert_sorted cmp) xs []"

text \<open>\<open>precedes xs a b\<close>: some occurrence of \<open>a\<close> in \<open>xs\<close> comes before an occurrence of \<open>b\<close>.\<close>

fun precedes :: "'a list \<Rightarrow> 'a \<Rightarrow> 'a \<Rightarrow> bool" where
  "precedes [] a b = False"
| "precedes (x # xs) a b = ((x = a \<and> b \<in> set xs) \<or> precedes xs a b)"

section \<open>Plain objects used as dictionaries\<close>

text \<open>
  An object literal \<open>{}\<close> is modelled by its own properties, in the order \<open>Object.entries\<close>
  and \<open>Object.keys\<close> enumerate them: the keys that are array indices first, in ascending
  numeric order, then the other keys in the order they were created. An array index is a
  canonical decimal numeral below \<open>2^32 - 1\<close>.
\<close>

definition is_digit :: "char \<Rightarrow> bool" where
  "is_digit c \<longleftrightarrow> (48::nat) \<le> of_char c \<and> of_char c \<le> (57::nat)"

definition array_index :: "string \<Rightarrow> nat option" where
  "array_index s =
     (if s \<noteq> [] \<and> list_all is_digit s \<and> (s = ''0'' \<or> hd s \<noteq> CHR ''0'')
      then (let n = foldl (\<lambda>a c. 10 * a + (of_char c - (48::nat))) 0 s
            in if n < 2 ^ 32 - 1 then Some n else None)
      else None)"

text \<open>A new array-index key goes in front of the first key that is not a smaller index.\<close>

fun insert_index :: "nat \<Rightarrow> string \<Rightarrow> 'v \<Rightarrow> (string \<times> 'v) list \<Rightarrow> (string \<times> 'v) list" where
  "insert_index n k v [] = [(k, v)]"
| "insert_index n k v (p # ps) =
     (case array_index (fst p) of
        Some m \<Rightarrow> if m < n then p # insert_index n k v ps else (k, v) # p # ps
      | None \<Rightarrow> (k, v) # p # ps)"

text \<open>
  The assignment \<open>obj[k] = v\<close>. An own property keeps its place. Otherwise the key
  \<open>__proto__\<close> is the accessor inherited from \<open>Object.prototype\<close>: assigning to it
  creates no own property (an object value becomes the prototype, any other value is
  ignored), so the own properties stay as they are.
\<close>

definition obj_put :: "string \<Rightarrow> 'v \<Rightarrow> (string \<times> 'v) list \<Rightarrow> (string \<times> 'v) list" where
  "obj_put k v obj =
     (if map_of obj k \<noteq> None then AList.update k v obj
      else if k = ''__proto__'' then obj
      else (case array_index k of
              Some n \<Rightarrow> insert_index n k v obj
            | None \<Rightarrow> obj @ [(k, v)]))"

text \<open>
  What a read \<open>obj[k]\<close> finds on \<open>Object.prototype\<close> when the object has no own property
  \<open>k\<close>, given as the string it converts to (the text Chrome prints for a built-in
  function); \<open>None\<close> when nothing is inherited and the read gives \<open>undefined\<close>.
\<close>

definition prototype_functions :: "string list" where
  "prototype_functions =
     [''__defineGetter__'', ''__defineSetter__'', ''hasOwnProperty'', ''__lookupGetter__'',
      ''__lookupSetter__'', ''isPrototypeOf'', ''propertyIsEnumerable'', ''toString'',
      ''valueOf'', ''toLocaleString'']"

definition inherited_text :: "string \<Rightarrow> string option" where
  "inherited_text k =
     (if k = ''__proto__'' then Some ''[object Object]''
      else if k = ''constructor'' then Some ''function Object() { [native code] }''
      else if k \<in> set prototype_functions then Some (''function '' @ k @ ''() { [native code] }'')
      else None)"

section \<open>Record store: saved tweets (background.js and its author-tag variant)\<close>

text \<open>
  The object built by \<open>extractTweetData\<close> in the content script, extended by the save
  modal with \<open>actionable\<close> and \<open>comment\<close>. The fields \<open>id\<close> and \<open>text\<close> are named
  \<open>tweet_id\<close> and \<open>tweet_text\<close> here.
  An empty string is the falsy author the content script starts from.
\<close>

record tweet =
  tweet_id :: string
  url :: string
  tweet_text :: string
  author :: string
  authorDisplayName :: string
  tickers :: "string list"
  images :: "string list"
  tweetedAt :: "string option"
  savedAt :: string
  actionable :: bool
  comment :: string

text \<open>
  The response objects \<open>{ success: false, duplicate: true }\<close> and \<open>{ success: true }\<close>;
  \<open>duplicate = None\<close> is the absent property.
\<close>

record op_result =
  success :: bool
  duplicate :: "bool option"

text \<open>
  \<open>addTweet\<close> of background.js. \<open>chrome.storage.sync\<close> is a total key-value store: the
  stored list is passed in and the list stored afterwards is returned (on a duplicate
  \<open>saveTweets\<close> is never reached, so the list comes back as it was).
  \<open>json_length tweets\<close> stands for \<open>JSON.stringify(tweets).length\<close>, the number of
  UTF-16 code units of the platform's serialisation.
\<close>

definition addTweet ::
  "(tweet list \<Rightarrow> nat) \<Rightarrow> tweet list \<Rightarrow> tweet \<Rightarrow> op_result \<times> tweet list" where
  "addTweet json_length tweets tweetData =
     (if list_ex (\<lambda>t. tweet_id t = tweet_id tweetData) tweets
      then (\<lparr>success = False, duplicate = Some True\<rparr>, tweets)
      else
        let unshifted = tweetData # tweets;
            popped = (if json_length unshifted > 90000 then butlast unshifted else unshifted)
        in (\<lparr>success = True, duplicate = None\<rparr>, popped))"

definition deleteTweet :: "tweet list \<Rightarrow> string \<Rightarrow> op_result \<times> tweet list" where
  "deleteTweet tweets tweetId =
     (let filtered = filter (\<lambda>t. tweet_id t \<noteq> tweetId) tweets
      in (\<lparr>success = True, duplicate = None\<rparr>, filtered))"

subsection \<open>The variant with author tags (second background script)\<close>

text \<open>The author-tag object; its field \<open>notes\<close> is named \<open>tag_notes\<close> here.\<close>

record author_tag =
  handle :: string
  displayName :: string
  tags :: "string list"
  tag_notes :: string
  tweetCount :: nat
  createdAt :: string
  updatedAt :: string

text \<open>
  Both storage areas the second background script touches: \<open>savedTweets\<close> in
  \<open>chrome.storage.sync\<close> and \<open>authorTags\<close> in \<open>chrome.storage.local\<close>. The tags object
  is given by its own properties.
\<close>

record storage =
  savedTweets :: "tweet list"
  authorTags :: "(string \<times> author_tag) list"

definition getTweetsByAuthor :: "storage \<Rightarrow> string \<Rightarrow> tweet list" where
  "getTweetsByAuthor st h = filter (\<lambda>t. author t = h) (savedTweets st)"

text \<open>
  \<open>nowIso\<close> is the value of \<open>new Date().toISOString()\<close>. For a handle that is not an own
  property of the tags object but is inherited from \<open>Object.prototype\<close>, the test
  \<open>if (tags[handle])\<close> succeeds on the inherited value; the two assignments then land on
  that value and the tags object is written back as it was.
\<close>

definition updateAuthorTweetCount :: "string \<Rightarrow> storage \<Rightarrow> string \<Rightarrow> storage" where
  "updateAuthorTweetCount nowIso st h =
     (if h = [] then st
      else
        let tweets = getTweetsByAuthor st h; tgs = authorTags st
        in case map_of tgs h of
             Some existing \<Rightarrow>
               st\<lparr>authorTags :=
                 AList.update h (existing\<lparr>tweetCount := length tweets, updatedAt := nowIso\<rparr>) tgs\<rparr>
           | None \<Rightarrow>
               if inherited_text h \<noteq> None then st
               else
                 (case tweets of
                    [] \<Rightarrow> st
                  | firstTweet # _ \<Rightarrow>
                      st\<lparr>authorTags :=
                        obj_put h
                          \<lparr>handle = h,
                           displayName =
                             (if authorDisplayName firstTweet \<noteq> [] then authorDisplayName firstTweet
                              else h),
                           tags = [], tag_notes = [], tweetCount = length tweets,
                           createdAt = nowIso, updatedAt = nowIso\<rparr> tgs\<rparr>))"

definition addTweet_tags ::
  "(tweet list \<Rightarrow> nat) \<Rightarrow> string \<Rightarrow> storage \<Rightarrow> tweet \<Rightarrow> op_result \<times> storage" where
  "addTweet_tags json_length nowIso st tweetData =
     (let tweets = savedTweets st in
      if list_ex (\<lambda>t. tweet_id t = tweet_id tweetData) tweets
      then (\<lparr>success = False, duplicate = Some True\<rparr>, st)
      else
        let unshifted = tweetData # tweets;
            popped = (if json_length unshifted > 90000 then butlast unshifted else unshifted);
            saved = st\<lparr>savedTweets := popped\<rparr>;
            counted = (if author tweetData \<noteq> []
                       then updateAuthorTweetCount nowIso saved (author tweetData) else saved)
        in (\<lparr>success = True, duplicate = None\<rparr>, counted))"

definition deleteTweet_tags :: "string \<Rightarrow> storage \<Rightarrow> string \<Rightarrow> op_result \<times> storage" where
  "deleteTweet_tags nowIso st tweetId =
     (let tweets = savedTweets st;
          tweetToDelete = List.find (\<lambda>t. tweet_id t = tweetId) tweets;
          filtered = filter (\<lambda>t. tweet_id t \<noteq> tweetId) tweets;
          saved = st\<lparr>savedTweets := filtered\<rparr>;
          counted = (case tweetToDelete of
                       None \<Rightarrow> saved
                     | Some t \<Rightarrow> if author t \<noteq> [] then updateAuthorTweetCount nowIso saved (author t)
                                 else saved)
      in (\<lparr>success = True, duplicate = None\<rparr>, counted))"

section \<open>Report: getStats\<close>

text \<open>
  \<open>tickerCounts\<close> and \<open>authorCounts\<close> are plain objects used as dictionaries. A value is
  the number the code means to keep, or the string that \<open>+ 1\<close> produces when the read
  found something that is not a number.
\<close>

datatype count = Num nat | Str string

type_synonym counts = "(string \<times> count) list"

text \<open>
  \<open>counts[k] = (counts[k] || 0) + 1\<close>. An own number is incremented. A key that is not
  an own property but is inherited from \<open>Object.prototype\<close> reads as a function (or, for
  \<open>__proto__\<close>, as the prototype object), which is truthy, and \<open>+ 1\<close> appends the
  character 1 to its text; so does \<open>+ 1\<close> on an own string.
\<close>

definition bump :: "string \<Rightarrow> counts \<Rightarrow> counts" where
  "bump k cs =
     obj_put k
       (case map_of cs k of
          Some (Num c) \<Rightarrow> Num (c + 1)
        | Some (Str s) \<Rightarrow> if s \<noteq> [] then Str (s @ ''1'') else Num 1
        | None \<Rightarrow> (case inherited_text k of Some t \<Rightarrow> Str (t @ ''1'') | None \<Rightarrow> Num 1))
       cs"

text \<open>The inner \<open>forEach\<close> over the tickers of one tweet.\<close>

fun countEach :: "string list \<Rightarrow> counts \<Rightarrow> counts" where
  "countEach [] cs = cs"
| "countEach (k # ks) cs = countEach ks (bump k cs)"

text \<open>The outer \<open>forEach\<close> over the tweets; an empty author is falsy and not counted.\<close>

fun tally :: "tweet list \<Rightarrow> counts \<times> counts \<Rightarrow> counts \<times> counts" where
  "tally [] acc = acc"
| "tally (tweet # rest) (tickerCounts, authorCounts) =
     tally rest
       (countEach (tickers tweet) tickerCounts,
        if author tweet \<noteq> [] then bump (author tweet) authorCounts else authorCounts)"

text \<open>
  The comparator \<open>(a, b) => b[1] - a[1]\<close>. A string count of the kind \<open>bump\<close> produces
  converts to \<open>NaN\<close>, the difference is \<open>NaN\<close>, and the sort takes \<open>NaN\<close> for 0. With
  such a count among the entries the comparator is not consistent and the order of the
  sorted array is left to the implementation; \<open>array_sort\<close> is exact for arrays of at
  most one entry and for arrays whose counts are all numbers.
\<close>

definition by_count :: "string \<times> count \<Rightarrow> string \<times> count \<Rightarrow> int" where
  "by_count a b =
     (case (snd b, snd a) of
        (Num y, Num x) \<Rightarrow> int y - int x
      | _ \<Rightarrow> 0)"

record stats =
  totalTweets :: nat
  totalTickers :: nat
  topTickers :: counts
  topAuthors :: counts
  recentTweets :: "tweet list"

definition getStats :: "tweet list \<Rightarrow> stats" where
  "getStats tweets =
     (let (tickerCounts, authorCounts) = tally tweets ([], [])
      in \<lparr>totalTweets = length tweets,
          totalTickers = length (map fst tickerCounts),
          topTickers = take 5 (array_sort by_count tickerCounts),
          topAuthors = take 5 (array_sort by_count authorCounts),
          recentTweets = take 3 tweets\<rparr>)"

text \<open>
  What the statistics are stated against: every ticker mention of the list, and every
  non-empty author, in list order.
\<close>

definition all_tickers :: "tweet list \<Rightarrow> string list" where
  "all_tickers tweets = concat (map tickers tweets)"

definition all_authors :: "tweet list \<Rightarrow> string list" where
  "all_authors tweets = filter (\<lambda>a. a \<noteq> []) (map author tweets)"

text \<open>
  A list of pairs is a top list of the keys \<open>ks\<close> when it names each key at most once
  with the number of its occurrences in \<open>ks\<close>, is sorted by that number, largest first,
  and no key left out occurs more often than a key listed.
\<close>

definition top_counts_of :: "string list \<Rightarrow> counts \<Rightarrow> bool" where
  "top_counts_of ks best \<longleftrightarrow>
     distinct (map fst best) \<and>
     (\<forall>(k, c) \<in> set best. k \<in> set ks \<and> c = Num (count_list ks k)) \<and>
     sorted_wrt (\<lambda>a b. count_list ks (fst b) \<le> count_list ks (fst a)) best \<and>
     (\<forall>k \<in> set ks. k \<notin> fst ` set best \<longrightarrow>
        (\<forall>k' \<in> fst ` set best. count_list ks k \<le> count_list ks k'))"

text \<open>No key of the list is the name of a member of \<open>Object.prototype\<close>.\<close>

definition own_keys_only :: "string list \<Rightarrow> bool" where
  "own_keys_only ks \<longleftrightarrow> (\<forall>k \<in> set ks. inherited_text k = None)"

text \<open>Every count of the object is a number; the number a count stands for.\<close>

definition all_numbers :: "counts \<Rightarrow> bool" where
  "all_numbers cs \<longleftrightarrow> (\<forall>p \<in> set cs. \<exists>n. snd p = Num n)"

fun number_of :: "count \<Rightarrow> nat" where
  "number_of (Num n) = n"
| "number_of (Str s) = 0"

section \<open>Stock quotes: performance, source adapters, cache and resolver\<close>

subsection \<open>The network as the functions see it\<close>

text \<open>
  One \<open>fetch\<close> followed by \<open>response.json()\<close>: the fetch rejects, or it answers with the
  flag \<open>response.ok\<close> and a body, \<open>None\<close> when \<open>json()\<close> rejects.
\<close>

datatype 'b reply = Rejects | Responds bool "'b option"

text \<open>
  The chart endpoint. \<open>meta\<close> is \<open>result.meta\<close> and \<open>closes\<close> is
  \<open>result.indicators?.quote?.[0]?.close\<close>, \<open>None\<close> when missing; an element of \<open>closes\<close> is
  a number or \<open>null\<close>. A string property is \<open>None\<close> when absent or null. The body is
  \<open>data.chart?.result?.[0]\<close>, \<open>None\<close> when that is missing.
\<close>

record chart_meta =
  shortName :: "string option"
  longName :: "string option"
  regularMarketPrice :: "real jsval"
  previousClose :: "real jsval"
  meta_currency :: "string option"

record chart_result =
  meta :: "chart_meta option"
  closes :: "real option list option"

type_synonym performance = "(string \<times> real option) list"

text \<open>The body of the local server: the quote, or an object whose \<open>error\<close> is truthy.\<close>

record local_quote =
  l_symbol :: string
  l_name :: string
  l_price :: "real jsval"
  l_priceFormatted :: "string option"
  l_currency :: "string option"
  l_marketCap :: "real jsval"
  l_marketCapFormatted :: "string option"
  l_performance :: "performance option"

datatype local_body = ErrorBody | QuoteBody local_quote

text \<open>
  What the service worker runs on: the two servers, keyed by the URL requested, and
  \<open>Number.prototype.toFixed(2)\<close>.
\<close>

record platform =
  fetch_local :: "string \<Rightarrow> local_body reply"
  fetch_chart :: "string \<Rightarrow> chart_result option reply"
  toFixed2 :: "real \<Rightarrow> string"

subsection \<open>fetchPerformanceForRange\<close>

definition range_url :: "string \<Rightarrow> string \<Rightarrow> string \<Rightarrow> string" where
  "range_url tkr rng ivl =
     ''https://query1.finance.yahoo.com/v8/finance/chart/'' @ tkr
       @ ''?range='' @ rng @ ''&interval='' @ ivl"

text \<open>\<open>for (let i = 0; i < closes.length; i++) if (closes[i] !== null) { ...; break; }\<close>\<close>

function scanForward :: "real option list \<Rightarrow> nat \<Rightarrow> real option" where
  "scanForward cl i =
     (if i < length cl
      then (case cl ! i of Some v \<Rightarrow> Some v | None \<Rightarrow> scanForward cl (i + 1))
      else None)"
  by pat_completeness auto
termination
  by (relation "measure (\<lambda>(cl, i). length cl - i)") auto

declare scanForward.simps [simp del]

text \<open>
  \<open>for (let i = closes.length - 1; i >= 0; i--) ...\<close>; the counter of the model is
  \<open>i + 1\<close>.
\<close>

fun scanBackward :: "real option list \<Rightarrow> nat \<Rightarrow> real option" where
  "scanBackward cl 0 = None"
| "scanBackward cl (Suc i) = (case cl ! i of Some v \<Rightarrow> Some v | None \<Rightarrow> scanBackward cl i)"

text \<open>The non-null closes of an array, in order.\<close>

definition valid_closes :: "real option list \<Rightarrow> real list" where
  "valid_closes cl = map the (filter (\<lambda>c. c \<noteq> None) cl)"

text \<open>The two scans and the result of \<open>fetchPerformanceForRange\<close>, for a given array.\<close>

definition performanceOfCloses :: "real option list \<Rightarrow> real option" where
  "performanceOfCloses cl =
     (let startPrice = scanForward cl 0; endPrice = scanBackward cl (length cl)
      in case (startPrice, endPrice) of
           (Some s, Some e) \<Rightarrow> if s = 0 then None else Some ((e - s) / s * 100)
         | _ \<Rightarrow> None)"

text \<open>
  The value returned and the request issued. Every failure inside is caught and gives
  \<open>null\<close>.
\<close>

definition fetchPerformanceForRange ::
  "platform \<Rightarrow> string \<Rightarrow> string \<Rightarrow> string \<Rightarrow> real option \<times> string list" where
  "fetchPerformanceForRange pf tkr rng ivl =
     (let u = range_url tkr rng ivl
      in (case fetch_chart pf u of
            Rejects \<Rightarrow> None
          | Responds ok body \<Rightarrow>
              if \<not> ok then None
              else (case body of
                      None \<Rightarrow> None
                    | Some None \<Rightarrow> None
                    | Some (Some result) \<Rightarrow>
                        (case closes result of
                           None \<Rightarrow> None
                         | Some cl \<Rightarrow> if cl = [] then None else performanceOfCloses cl)),
          [u]))"

subsection \<open>The quote objects\<close>

text \<open>
  \<open>stock_core\<close> is the object background.js builds; the hand-off version adds the
  market capitalisation and the source tag.
\<close>

record stock_core =
  symbol :: string
  name :: string
  currentPrice :: "real jsval"
  priceFormatted :: string
  currency :: string
  performance :: performance

record stock_info = stock_core +
  marketCap :: "real jsval"
  marketCapFormatted :: string
  source :: string

text \<open>What \<open>fetchStockInfo\<close> answers: the quote, or \<open>{ symbol, name, error: true }\<close>.\<close>

datatype 'd resolved = Info 'd | ErrorMarker string string

text \<open>What can be thrown: a rejected fetch, a rejected \<open>json()\<close>, the explicit
  \<open>new Error('No data found for symbol')\<close>, and a rejected call of \<open>chrome.storage\<close>.\<close>

datatype js_error = FetchRejected | JsonRejected | NoDataFound | StorageRejected

text \<open>\<open>a || b\<close> on strings: the empty string is falsy.\<close>

definition or_else :: "string option \<Rightarrow> string \<Rightarrow> string" where
  "or_else a b = (case a of Some s \<Rightarrow> if s \<noteq> [] then s else b | None \<Rightarrow> b)"

text \<open>The block \<open>if (meta) { ... }\<close>, the same in both versions.\<close>

definition applyMeta ::
  "(real \<Rightarrow> string) \<Rightarrow> string \<Rightarrow> chart_meta \<Rightarrow> 'a stock_core_scheme \<Rightarrow> 'a stock_core_scheme" where
  "applyMeta fixed2 tkr m stockInfo =
     (let named = stockInfo
            \<lparr>name := or_else (shortName m) (or_else (longName m) tkr),
             currentPrice := regularMarketPrice m,
             priceFormatted :=
               (case regularMarketPrice m of
                  Val p \<Rightarrow> if fixed2 p \<noteq> [] then fixed2 p else ''N/A''
                | _ \<Rightarrow> ''N/A''),
             currency := or_else (meta_currency m) ''USD''\<rparr>
      in case (regularMarketPrice m, previousClose m) of
           (Val p, Val pc) \<Rightarrow>
             if p \<noteq> 0 \<and> pc \<noteq> 0
             then named\<lparr>performance :=
                    AList.update ''1D'' (Some ((p - pc) / pc * 100)) (performance named)\<rparr>
             else named
         | _ \<Rightarrow> named)"

definition quote_url :: "string \<Rightarrow> string" where
  "quote_url tkr =
     ''https://query1.finance.yahoo.com/v8/finance/chart/'' @ tkr @ ''?interval=1d&range=1d''"

definition local_url :: "string \<Rightarrow> string" where
  "local_url tkr = ''http://localhost:5050/quote/'' @ tkr"

text \<open>
  The four range requests of \<open>Promise.all\<close>, issued in this order, written into the
  performance object.
\<close>

definition withRanges ::
  "platform \<Rightarrow> string \<Rightarrow> 'a stock_core_scheme \<Rightarrow> 'a stock_core_scheme \<times> string list" where
  "withRanges pf tkr stockInfo =
     (let (perf1M, r1) = fetchPerformanceForRange pf tkr ''1mo'' ''1d'';
          (perfYTD, r2) = fetchPerformanceForRange pf tkr ''ytd'' ''1d'';
          (perf1Y, r3) = fetchPerformanceForRange pf tkr ''1y'' ''1d'';
          (perf5Y, r4) = fetchPerformanceForRange pf tkr ''5y'' ''1wk''
      in (stockInfo\<lparr>performance :=
            AList.update ''5Y'' perf5Y
              (AList.update ''1Y'' perf1Y
                (AList.update ''YTD'' perfYTD
                  (AList.update ''1M'' perf1M (performance stockInfo))))\<rparr>,
          r1 @ r2 @ r3 @ r4))"

definition range_urls :: "string \<Rightarrow> string list" where
  "range_urls tkr =
     [range_url tkr ''1mo'' ''1d'', range_url tkr ''ytd'' ''1d'',
      range_url tkr ''1y'' ''1d'', range_url tkr ''5y'' ''1wk'']"

subsection \<open>The source adapters of the hand-off version\<close>

definition formatMarketCap :: "(real \<Rightarrow> string) \<Rightarrow> real jsval \<Rightarrow> string" where
  "formatMarketCap fixed2 v =
     (case v of
        Val x \<Rightarrow>
          if x = 0 then ''N/A''
          else if x \<ge> 10 ^ 12 then ''$'' @ fixed2 (x / 10 ^ 12) @ ''T''
          else if x \<ge> 10 ^ 9 then ''$'' @ fixed2 (x / 10 ^ 9) @ ''B''
          else if x \<ge> 10 ^ 6 then ''$'' @ fixed2 (x / 10 ^ 6) @ ''M''
          else if x \<ge> 10 ^ 3 then ''$'' @ fixed2 (x / 10 ^ 3) @ ''K''
          else ''$'' @ fixed2 x
      | _ \<Rightarrow> ''N/A'')"

text \<open>\<open>fetchFromLocalServer\<close>: every failure is caught and gives \<open>null\<close>.\<close>

definition fetchFromLocalServer :: "platform \<Rightarrow> string \<Rightarrow> stock_info option \<times> string list" where
  "fetchFromLocalServer pf tkr =
     (let u = local_url tkr
      in (case fetch_local pf u of
            Rejects \<Rightarrow> None
          | Responds ok body \<Rightarrow>
              if \<not> ok then None
              else (case body of
                      None \<Rightarrow> None
                    | Some ErrorBody \<Rightarrow> None
                    | Some (QuoteBody d) \<Rightarrow>
                        Some \<lparr>symbol = l_symbol d,
                              name = l_name d,
                              currentPrice = l_price d,
                              priceFormatted =
                                (case l_priceFormatted d of
                                   Some s \<Rightarrow>
                                     if s \<noteq> [] then s
                                     else (case l_price d of Val p \<Rightarrow> toFixed2 pf p | _ \<Rightarrow> ''N/A'')
                                 | None \<Rightarrow>
                                     (case l_price d of Val p \<Rightarrow> toFixed2 pf p | _ \<Rightarrow> ''N/A'')),
                              currency = or_else (l_currency d) ''USD'',
                              performance = (case l_performance d of Some p \<Rightarrow> p | None \<Rightarrow> []),
                              marketCap = l_marketCap d,
                              marketCapFormatted =
                                or_else (l_marketCapFormatted d)
                                  (formatMarketCap (toFixed2 pf) (l_marketCap d)),
                              source = ''local-server''\<rparr>),
          [u]))"

text \<open>
  \<open>fetchFromYahooFinanceDirect\<close>: nothing is caught here. A rejected fetch or \<open>json()\<close>
  leaves before the range requests; the explicit error is thrown after them.
\<close>

definition fetchFromYahooFinanceDirect ::
  "platform \<Rightarrow> string \<Rightarrow> (js_error + stock_info) \<times> string list" where
  "fetchFromYahooFinanceDirect pf tkr =
     (let quoteUrl = quote_url tkr;
          stockInfo = \<lparr>symbol = tkr, name = tkr, currentPrice = Null,
                       priceFormatted = ''N/A'', currency = ''USD'', performance = [],
                       marketCap = Null, marketCapFormatted = ''N/A'',
                       source = ''yahoo-direct''\<rparr>
      in case fetch_chart pf quoteUrl of
           Rejects \<Rightarrow> (Inl FetchRejected, [quoteUrl])
         | Responds ok body \<Rightarrow>
             if ok \<and> body = None then (Inl JsonRejected, [quoteUrl])
             else
               let quoted =
                     (if ok
                      then (case body of
                              Some (Some result) \<Rightarrow>
                                (case meta result of
                                   Some m \<Rightarrow> applyMeta (toFixed2 pf) tkr m stockInfo
                                 | None \<Rightarrow> stockInfo)
                            | _ \<Rightarrow> stockInfo)
                      else stockInfo);
                   (ranged, rs) = withRanges pf tkr quoted
               in (if currentPrice ranged \<noteq> Null then Inr ranged else Inl NoDataFound,
                   quoteUrl # rs))"

subsection \<open>The quote cache\<close>

text \<open>
  The object stored under \<open>stockCache\<close>: its own properties in the order of
  \<open>Object.entries\<close>, with distinct keys.
\<close>

record 'd cache_entry =
  data :: 'd
  timestamp :: int

type_synonym 'd cache = "(string \<times> 'd cache_entry) list"

definition CACHE_DURATION :: int where
  "CACHE_DURATION = 15 * 60 * 1000"

text \<open>
  \<open>chrome.storage.local\<close> as the cache functions meet it: whether \<open>get\<close> and \<open>set\<close>
  resolve, and the value under \<open>stockCache\<close>, \<open>None\<close> when the key was never written.
\<close>

record 'd local_storage =
  get_resolves :: bool
  set_resolves :: bool
  stockCache :: "'d cache option"

text \<open>\<open>result[STOCK_CACHE_KEY] || {}\<close>\<close>

definition storedCache :: "'d local_storage \<Rightarrow> 'd cache" where
  "storedCache st = (case stockCache st of Some c \<Rightarrow> c | None \<Rightarrow> [])"

definition getStockCache :: "'d local_storage \<Rightarrow> js_error + 'd cache" where
  "getStockCache st = (if get_resolves st then Inr (storedCache st) else Inl StorageRejected)"

text \<open>\<open>saveStockCache\<close>: the object that is handed to \<open>chrome.storage.local.set\<close>.\<close>

definition saveStockCache :: "'d cache \<Rightarrow> 'd cache" where
  "saveStockCache cache =
     (let entries = cache
      in if length entries > 50
         then take 50 (array_sort (\<lambda>a b. timestamp (snd b) - timestamp (snd a)) entries)
         else cache)"

text \<open>\<open>await saveStockCache(cache)\<close>: the storage afterwards, or the rejection of \<open>set\<close>.\<close>

definition writeStockCache :: "'d local_storage \<Rightarrow> 'd cache \<Rightarrow> js_error + 'd local_storage" where
  "writeStockCache st cache =
     (if set_resolves st then Inr (st\<lparr>stockCache := Some (saveStockCache cache)\<rparr>)
      else Inl StorageRejected)"

text \<open>
  The test \<open>cached && Date.now() - cached.timestamp < CACHE_DURATION\<close> and the data it
  lets through. A key that is only inherited from \<open>Object.prototype\<close> reads as a value
  without a \<open>timestamp\<close>; the difference is \<open>NaN\<close> and the test fails, as for a key that
  is absent.
\<close>

definition freshEntry :: "int \<Rightarrow> 'd cache \<Rightarrow> string \<Rightarrow> 'd option" where
  "freshEntry now cache tkr =
     (case map_of cache tkr of
        Some cached \<Rightarrow> if now - timestamp cached < CACHE_DURATION then Some (data cached) else None
      | None \<Rightarrow> None)"

subsection \<open>fetchStockInfo\<close>

text \<open>
  \<open>fetchStockInfo\<close> of the hand-off version. \<open>now0\<close> and \<open>now1\<close> are the two readings of
  \<open>Date.now()\<close>, at the cache test and at the cache write. The result is what the
  promise settles with (\<open>Inl\<close> is a rejection), the storage afterwards and the requests
  issued, in order. The cache is read before the \<open>try\<close> block, so a rejected read
  rejects the call; the write is inside it, so a rejected write is caught.
\<close>

definition fetchStockInfo ::
  "platform \<Rightarrow> int \<Rightarrow> int \<Rightarrow> stock_info local_storage \<Rightarrow> string
     \<Rightarrow> (js_error + stock_info resolved) \<times> stock_info local_storage \<times> string list" where
  "fetchStockInfo pf now0 now1 st tkr =
     (case getStockCache st of
        Inl e \<Rightarrow> (Inl e, st, [])
      | Inr cache \<Rightarrow>
          (case freshEntry now0 cache tkr of
             Some d \<Rightarrow> (Inr (Info d), st, [])
           | None \<Rightarrow>
               let (fromLocal, r1) = fetchFromLocalServer pf tkr;
                   (tried, r2) = (case fromLocal of
                                    Some stockInfo \<Rightarrow> (Inr stockInfo, [])
                                  | None \<Rightarrow> fetchFromYahooFinanceDirect pf tkr)
               in case tried of
                    Inr stockInfo \<Rightarrow>
                      (case writeStockCache st
                              (obj_put tkr \<lparr>data = stockInfo, timestamp = now1\<rparr> cache) of
                         Inr written \<Rightarrow> (Inr (Info stockInfo), written, r1 @ r2)
                       | Inl e \<Rightarrow> (Inr (ErrorMarker tkr tkr), st, r1 @ r2))
                  | Inl e \<Rightarrow> (Inr (ErrorMarker tkr tkr), st, r1 @ r2)))"

text \<open>The \<open>try\<close> block of \<open>fetchStockInfo\<close> in background.js, up to the cache write.\<close>

definition tryQuote_bg :: "platform \<Rightarrow> string \<Rightarrow> (js_error + stock_core) \<times> string list" where
  "tryQuote_bg pf tkr =
     (let quoteUrl = quote_url tkr;
          stockInfo = \<lparr>symbol = tkr, name = tkr, currentPrice = Null,
                       priceFormatted = ''N/A'', currency = ''USD'',
                       performance = [(''1D'', None), (''1M'', None), (''YTD'', None),
                                      (''1Y'', None), (''5Y'', None)]\<rparr>
      in case fetch_chart pf quoteUrl of
           Rejects \<Rightarrow> (Inl FetchRejected, [quoteUrl])
         | Responds ok body \<Rightarrow>
             if ok \<and> body = None then (Inl JsonRejected, [quoteUrl])
             else
               let quoted =
                     (if ok
                      then (case body of
                              Some (Some result) \<Rightarrow>
                                (case meta result of
                                   Some m \<Rightarrow> applyMeta (toFixed2 pf) tkr m stockInfo
                                 | None \<Rightarrow> stockInfo)
                            | _ \<Rightarrow> stockInfo)
                      else stockInfo);
                   (ranged, rs) = withRanges pf tkr quoted
               in (if currentPrice ranged \<noteq> Null then Inr ranged else Inl NoDataFound,
                   quoteUrl # rs))"

definition fetchStockInfo_bg ::
  "platform \<Rightarrow> int \<Rightarrow> int \<Rightarrow> stock_core local_storage \<Rightarrow> string
     \<Rightarrow> (js_error + stock_core resolved) \<times> stock_core local_storage \<times> string list" where
  "fetchStockInfo_bg pf now0 now1 st tkr =
     (case getStockCache st of
        Inl e \<Rightarrow> (Inl e, st, [])
      | Inr cache \<Rightarrow>
          (case freshEntry now0 cache tkr of
             Some d \<Rightarrow> (Inr (Info d), st, [])
           | None \<Rightarrow>
               let (tried, rs) = tryQuote_bg pf tkr
               in case tried of
                    Inr stockInfo \<Rightarrow>
                      (case writeStockCache st
                              (obj_put tkr \<lparr>data = stockInfo, timestamp = now1\<rparr> cache) of
                         Inr written \<Rightarrow> (Inr (Info stockInfo), written, rs)
                       | Inl e \<Rightarrow> (Inr (ErrorMarker tkr tkr), st, rs))
                  | Inl e \<Rightarrow> (Inr (ErrorMarker tkr tkr), st, rs)))"

subsection \<open>The normalisation the specification describes\<close>

text \<open>
  Upper-casing and trimming of an ASCII string, as the specification words step 1 of the
  resolver; \<open>fetchStockInfo\<close> is compared with it.
\<close>

definition to_upper :: "char \<Rightarrow> char" where
  "to_upper c =
     (if (97::nat) \<le> of_char c \<and> of_char c \<le> (122::nat) then char_of (of_char c - (32::nat)) else c)"

definition is_space :: "char \<Rightarrow> bool" where
  "is_space c \<longleftrightarrow> of_char c \<in> {9, 10, 11, 12, 13, 32 :: nat}"

definition spec_normalize :: "string \<Rightarrow> string" where
  "spec_normalize s = rev (dropWhile is_space (rev (dropWhile is_space (map to_upper s))))"

section \<open>Concrete inputs\<close>

definition mk_tweet :: "string \<Rightarrow> string \<Rightarrow> string list \<Rightarrow> tweet" where
  "mk_tweet i a ts =
     \<lparr>tweet_id = i, url = ''https://x.com/'' @ a @ ''/status/'' @ i, tweet_text = ''text'',
      author = a, authorDisplayName = a, tickers = ts, images = [], tweetedAt = None,
      savedAt = ''2024-01-01T00:00:00.000Z'', actionable = False, comment = []\<rparr>"

definition three_tweets :: "tweet list" where
  "three_tweets =
     [mk_tweet ''103'' ''alice'' [''AAPL''],
      mk_tweet ''102'' ''bob'' [''TSLA'', ''AAPL''],
      mk_tweet ''101'' ''alice'' [''GME'']]"

text \<open>A stand-in for the serialised length: the characters of the tweet texts.\<close>

definition text_chars :: "tweet list \<Rightarrow> nat" where
  "text_chars ts = sum_list (map (\<lambda>t. length (tweet_text t)) ts)"

definition three_stored :: storage where
  "three_stored = \<lparr>savedTweets = three_tweets, authorTags = []\<rparr>"

text \<open>A tweet whose text alone has 50000 characters.\<close>

definition long_tweet :: "string \<Rightarrow> tweet" where
  "long_tweet i = (mk_tweet i ''alice'' [])\<lparr>tweet_text := replicate 50000 (CHR ''x'')\<rparr>"

text \<open>A network where nothing answers, and one where only the chart endpoint does.\<close>

definition fixed2_stub :: "real \<Rightarrow> string" where
  "fixed2_stub x = ''150.25''"

definition offline :: platform where
  "offline = \<lparr>fetch_local = (\<lambda>u. Rejects), fetch_chart = (\<lambda>u. Rejects), toFixed2 = fixed2_stub\<rparr>"

definition aapl_meta :: chart_meta where
  "aapl_meta = \<lparr>shortName = Some ''Apple Inc.'', longName = None,
                regularMarketPrice = Val 150.25, previousClose = Val 150,
                meta_currency = Some ''USD''\<rparr>"

definition chart_only :: platform where
  "chart_only =
     \<lparr>fetch_local = (\<lambda>u. Rejects),
      fetch_chart = (\<lambda>u. Responds True
                      (Some (Some \<lparr>meta = Some aapl_meta, closes = Some [None, Some 100, None]\<rparr>))),
      toFixed2 = fixed2_stub\<rparr>"

text \<open>
  A cache of 51 entries: the first two share the oldest timestamp, the others are newer
  and all different. \<open>kept50\<close> is what is expected to remain of it.
\<close>

definition cache51 :: "unit cache" where
  "cache51 =
     [(''AA'', \<lparr>data = (), timestamp = 0\<rparr>),
      (''AB'', \<lparr>data = (), timestamp = 0\<rparr>),
      (''AC'', \<lparr>data = (), timestamp = 2\<rparr>),
      (''AD'', \<lparr>data = (), timestamp = 3\<rparr>),
      (''AE'', \<lparr>data = (), timestamp = 4\<rparr>),
      (''AF'', \<lparr>data = (), timestamp = 5\<rparr>),
      (''AG'', \<lparr>data = (), timestamp = 6\<rparr>),
      (''AH'', \<lparr>data = (), timestamp = 7\<rparr>),
      (''BA'', \<lparr>data = (), timestamp = 8\<rparr>),
      (''BB'', \<lparr>data = (), timestamp = 9\<rparr>),
      (''BC'', \<lparr>data = (), timestamp = 10\<rparr>),
      (''BD'', \<lparr>data = (), timestamp = 11\<rparr>),
      (''BE'', \<lparr>data = (), timestamp = 12\<rparr>),
      (''BF'', \<lparr>data = (), timestamp = 13\<rparr>),
      (''BG'', \<lparr>data = (), timestamp = 14\<rparr>),
      (''BH'', \<lparr>data = (), timestamp = 15\<rparr>),
      (''CA'', \<lparr>data = (), timestamp = 16\<rparr>),
      (''CB'', \<lparr>data = (), timestamp = 17\<rparr>),
      (''CC'', \<lparr>data = (), timestamp = 18\<rparr>),
      (''CD'', \<lparr>data = (), timestamp = 19\<rparr>),
      (''CE'', \<lparr>data = (), timestamp = 20\<rparr>),
      (''CF'', \<lparr>data = (), timestamp = 21\<rparr>),
      (''CG'', \<lparr>data = (), timestamp = 22\<rparr>),
      (''CH'', \<lparr>data = (), timestamp = 23\<rparr>),
      (''DA'', \<lparr>data = (), timestamp = 24\<rparr>),
      (''DB'', \<lparr>data = (), timestamp = 25\<rparr>),
      (''DC'', \<lparr>data = (), timestamp = 26\<rparr>),
      (''DD'', \<lparr>data = (), timestamp = 27\<rparr>),
      (''DE'', \<lparr>data = (), timestamp = 28\<rparr>),
      (''DF'', \<lparr>data = (), timestamp = 29\<rparr>),
      (''DG'', \<lparr>data = (), timestamp = 30\<rparr>),
      (''DH'', \<lparr>data = (), timestamp = 31\<rparr>),
      (''EA'', \<lparr>data = (), timestamp = 32\<rparr>),
      (''EB'', \<lparr>data = (), timestamp = 33\<rparr>),
      (''EC'', \<lparr>data = (), timestamp = 34\<rparr>),
      (''ED'', \<lparr>data = (), timestamp = 35\<rparr>),
      (''EE'', \<lparr>data = (), timestamp = 36\<rparr>),
      (''EF'', \<lparr>data = (), timestamp = 37\<rparr>),
      (''EG'', \<lparr>data = (), timestamp = 38\<rparr>),
      (''EH'', \<lparr>data = (), timestamp = 39\<rparr>),
      (''FA'', \<lparr>data = (), timestamp = 40\<rparr>),
      (''FB'', \<lparr>data = (), timestamp = 41\<rparr>),
      (''FC'', \<lparr>data = (), timestamp = 42\<rparr>),
      (''FD'', \<lparr>data = (), timestamp = 43\<rparr>),
      (''FE'', \<lparr>data = (), timestamp = 44\<rparr>),
      (''FF'', \<lparr>data = (), timestamp = 45\<rparr>),
      (''FG'', \<lparr>data = (), timestamp = 46\<rparr>),
      (''FH'', \<lparr>data = (), timestamp = 47\<rparr>),
      (''GA'', \<lparr>data = (), timestamp = 48\<rparr>),
      (''GB'', \<lparr>data = (), timestamp = 49\<rparr>),
      (''GC'', \<lparr>data = (), timestamp = 50\<rparr>)]"

definition kept50 :: "unit cache" where
  "kept50 =
     [(''GC'', \<lparr>data = (), timestamp = 50\<rparr>),
      (''GB'', \<lparr>data = (), timestamp = 49\<rparr>),
      (''GA'', \<lparr>data = (), timestamp = 48\<rparr>),
      (''FH'', \<lparr>data = (), timestamp = 47\<rparr>),
      (''FG'', \<lparr>data = (), timestamp = 46\<rparr>),
      (''FF'', \<lparr>data = (), timestamp = 45\<rparr>),
      (''FE'', \<lparr>data = (), timestamp = 44\<rparr>),
      (''FD'', \<lparr>data = (), timestamp = 43\<rparr>),
      (''FC'', \<lparr>data = (), timestamp = 42\<rparr>),
      (''FB'', \<lparr>data = (), timestamp = 41\<rparr>),
      (''FA'', \<lparr>data = (), timestamp = 40\<rparr>),
      (''EH'', \<lparr>data = (), timestamp = 39\<rparr>),
      (''EG'', \<lparr>data = (), timestamp = 38\<rparr>),
      (''EF'', \<lparr>data = (), timestamp = 37\<rparr>),
      (''EE'', \<lparr>data = (), timestamp = 36\<rparr>),
      (''ED'', \<lparr>data = (), timestamp = 35\<rparr>),
      (''EC'', \<lparr>data = (), timestamp = 34\<rparr>),
      (''EB'', \<lparr>data = (), timestamp = 33\<rparr>),
      (''EA'', \<lparr>data = (), timestamp = 32\<rparr>),
      (''DH'', \<lparr>data = (), timestamp = 31\<rparr>),
      (''DG'', \<lparr>data = (), timestamp = 30\<rparr>),
      (''DF'', \<lparr>data = (), timestamp = 29\<rparr>),
      (''DE'', \<lparr>data = (), timestamp = 28\<rparr>),
      (''DD'', \<lparr>data = (), timestamp = 27\<rparr>),
      (''DC'', \<lparr>data = (), timestamp = 26\<rparr>),
      (''DB'', \<lparr>data = (), timestamp = 25\<rparr>),
      (''DA'', \<lparr>data = (), timestamp = 24\<rparr>),
      (''CH'', \<lparr>data = (), timestamp = 23\<rparr>),
      (''CG'', \<lparr>data = (), timestamp = 22\<rparr>),
      (''CF'', \<lparr>data = (), timestamp = 21\<rparr>),
      (''CE'', \<lparr>data = (), timestamp = 20\<rparr>),
      (''CD'', \<lparr>data = (), timestamp = 19\<rparr>),
      (''CC'', \<lparr>data = (), timestamp = 18\<rparr>),
      (''CB'', \<lparr>data = (), timestamp = 17\<rparr>),
      (''CA'', \<lparr>data = (), timestamp = 16\<rparr>),
      (''BH'', \<lparr>data = (), timestamp = 15\<rparr>),
      (''BG'', \<lparr>data = (), timestamp = 14\<rparr>),
      (''BF'', \<lparr>data = (), timestamp = 13\<rparr>),
      (''BE'', \<lparr>data = (), timestamp = 12\<rparr>),
      (''BD'', \<lparr>data = (), timestamp = 11\<rparr>),
      (''BC'', \<lparr>data = (), timestamp = 10\<rparr>),
      (''BB'', \<lparr>data = (), timestamp = 9\<rparr>),
      (''BA'', \<lparr>data = (), timestamp = 8\<rparr>),
      (''AH'', \<lparr>data = (), timestamp = 7\<rparr>),
      (''AG'', \<lparr>data = (), timestamp = 6\<rparr>),
      (''AF'', \<lparr>data = (), timestamp = 5\<rparr>),
      (''AE'', \<lparr>data = (), timestamp = 4\<rparr>),
      (''AD'', \<lparr>data = (), timestamp = 3\<rparr>),
      (''AC'', \<lparr>data = (), timestamp = 2\<rparr>),
      (''AA'', \<lparr>data = (), timestamp = 0\<rparr>)]"

text \<open>The quotes the chart endpoint above leads to, and two caches.\<close>

definition aapl_perf :: performance where
  "aapl_perf = [(''1D'', Some (1 / 6)), (''1M'', Some 0), (''YTD'', Some 0),
                (''1Y'', Some 0), (''5Y'', Some 0)]"

definition aapl_direct :: stock_info where
  "aapl_direct =
     \<lparr>symbol = ''AAPL'', name = ''Apple Inc.'', currentPrice = Val 150.25,
      priceFormatted = ''150.25'', currency = ''USD'', performance = aapl_perf,
      marketCap = Null, marketCapFormatted = ''N/A'', source = ''yahoo-direct''\<rparr>"

definition aapl_core :: stock_core where
  "aapl_core =
     \<lparr>symbol = ''AAPL'', name = ''Apple Inc.'', currentPrice = Val 150.25,
      priceFormatted = ''150.25'', currency = ''USD'', performance = aapl_perf\<rparr>"

definition zzzz_old :: stock_info where
  "zzzz_old =
     \<lparr>symbol = ''ZZZZ'', name = ''Zed Corp'', currentPrice = Val 1,
      priceFormatted = ''1.00'', currency = ''USD'', performance = [],
      marketCap = Val 5000, marketCapFormatted = ''$5.00K'', source = ''local-server''\<rparr>"

definition stale_zzzz :: "stock_info cache" where
  "stale_zzzz = [(''ZZZZ'', \<lparr>data = zzzz_old, timestamp = 0\<rparr>)]"

definition aapl_cached :: "stock_info cache" where
  "aapl_cached = [(''AAPL'', \<lparr>data = aapl_direct, timestamp = 1000\<rparr>)]"

text \<open>Storage that works, storage never written, and storage whose calls reject.\<close>

definition storing :: "'d cache \<Rightarrow> 'd local_storage" where
  "storing c = \<lparr>get_resolves = True, set_resolves = True, stockCache = Some c\<rparr>"

definition never_written :: "'d local_storage" where
  "never_written = \<lparr>get_resolves = True, set_resolves = True, stockCache = None\<rparr>"

definition unreadable :: "'d local_storage" where
  "unreadable = \<lparr>get_resolves = False, set_resolves = True, stockCache = None\<rparr>"

definition unwritable :: "'d local_storage" where
  "unwritable = \<lparr>get_resolves = True, set_resolves = False, stockCache = None\<rparr>"

definition aapl_core_cached :: "stock_core cache" where
  "aapl_core_cached = [(''AAPL'', \<lparr>data = aapl_core, timestamp = 1000\<rparr>)]"

text \<open>Tweets by authors whose handles are names of members of \<open>Object.prototype\<close>.\<close>

definition by_constructor :: "tweet list" where
  "by_constructor = [mk_tweet ''201'' ''constructor'' [''AAPL'']]"

definition by_proto :: "tweet list" where
  "by_proto = [mk_tweet ''202'' ''__proto__'' [''AAPL'']]"

section \<open>The sort and the order of entries\<close>

lemma insert_sorted_insort:
  "insert_sorted (\<lambda>a b. f b - f a) x ys = insort_key (\<lambda>e. - f e) x ys"
  by (induction ys) auto

lemma array_sort_sort_key:
  "array_sort (\<lambda>a b. f b - f a) xs = sort_key (\<lambda>e. - f e) xs"
  by (induction xs) (simp_all add: array_sort_def sort_key_def insert_sorted_insort)

lemma array_sort_desc:
  "sorted_wrt (\<lambda>a b. f b \<le> f a) (array_sort (\<lambda>a b. f b - f a) xs)"
proof -
  have "sorted (map (\<lambda>e. - f e) (sort_key (\<lambda>e. - f e) xs))"
    by (rule sorted_sort_key)
  then show ?thesis
    by (simp add: array_sort_sort_key sorted_map sorted_wrt_iff_nth_less)
qed

lemma mset_array_sort [simp]: "mset (array_sort (\<lambda>a b. f b - f a) xs) = mset xs"
  by (simp add: array_sort_sort_key)

lemma set_array_sort [simp]: "set (array_sort (\<lambda>a b. f b - f a) xs) = set xs"
  by (simp add: array_sort_sort_key)

lemma length_array_sort [simp]: "length (array_sort (\<lambda>a b. f b - f a) xs) = length xs"
  by (simp add: array_sort_sort_key)

lemma array_sort_stable:
  "filter (\<lambda>y. f y = k) (array_sort (\<lambda>a b. f b - f a) xs) = filter (\<lambda>y. f y = k) xs"
proof -
  have "filter (\<lambda>y. - f y = - k) (sort_key (\<lambda>e. - f e) xs) = filter (\<lambda>y. - f y = - k) xs"
    by (rule sort_key_stable)
  then show ?thesis by (simp add: array_sort_sort_key)
qed

lemma sorted_wrt_take_drop:
  assumes "sorted_wrt R xs" "x \<in> set (take n xs)" "y \<in> set (drop n xs)"
  shows "R x y"
proof -
  have "sorted_wrt R (take n xs @ drop n xs)" using assms(1) by simp
  then show ?thesis using assms(2,3) unfolding sorted_wrt_append by blast
qed

lemma in_drop_if_not_in_take:
  assumes "x \<in> set xs" "x \<notin> set (take n xs)"
  shows "x \<in> set (drop n xs)"
proof -
  have "set xs = set (take n xs) \<union> set (drop n xs)"
    by (metis append_take_drop_id set_append)
  with assms show ?thesis by blast
qed

lemma precedes_append: "a \<in> set xs \<Longrightarrow> b \<in> set ys \<Longrightarrow> precedes (xs @ ys) a b"
  by (induction xs) auto

lemma precedes_take_drop:
  "a \<in> set (take n xs) \<Longrightarrow> b \<in> set (drop n xs) \<Longrightarrow> precedes xs a b"
  using precedes_append [of a "take n xs" b "drop n xs"] by simp

lemma precedes_filter_iff:
  "P a \<Longrightarrow> P b \<Longrightarrow> precedes (filter P xs) a b = precedes xs a b"
  by (induction xs) auto

text \<open>\<open>precedes\<close> in terms of positions.\<close>

lemma precedes_index:
  "precedes xs a b = (\<exists>i j. i < j \<and> j < length xs \<and> xs ! i = a \<and> xs ! j = b)"
proof (induction xs)
  case Nil
  then show ?case by simp
next
  case (Cons x xs)
  show ?case
  proof
    assume "precedes (x # xs) a b"
    then consider "x = a" "b \<in> set xs" | "precedes xs a b" by auto
    then show "\<exists>i j. i < j \<and> j < length (x # xs) \<and> (x # xs) ! i = a \<and> (x # xs) ! j = b"
    proof cases
      case 1
      then obtain j where "j < length xs" "xs ! j = b" by (auto simp: in_set_conv_nth)
      with 1 have "0 < Suc j \<and> Suc j < length (x # xs) \<and> (x # xs) ! 0 = a \<and> (x # xs) ! Suc j = b"
        by simp
      then show ?thesis by blast
    next
      case 2
      with Cons obtain i j where "i < j" "j < length xs" "xs ! i = a" "xs ! j = b" by blast
      then have "Suc i < Suc j \<and> Suc j < length (x # xs) \<and> (x # xs) ! Suc i = a \<and> (x # xs) ! Suc j = b"
        by simp
      then show ?thesis by blast
    qed
  next
    assume "\<exists>i j. i < j \<and> j < length (x # xs) \<and> (x # xs) ! i = a \<and> (x # xs) ! j = b"
    then obtain i j where ij: "i < j" "j < length (x # xs)" "(x # xs) ! i = a" "(x # xs) ! j = b"
      by blast
    then obtain j' where j': "j = Suc j'" by (cases j) auto
    show "precedes (x # xs) a b"
    proof (cases i)
      case 0
      with ij j' show ?thesis by auto
    next
      case (Suc i')
      with ij j' have "i' < j' \<and> j' < length xs \<and> xs ! i' = a \<and> xs ! j' = b" by simp
      with Cons show ?thesis by auto
    qed
  qed
qed

text \<open>For every comparator the sort permutes its argument.\<close>

lemma mset_insert_sorted: "mset (insert_sorted cmp x ys) = add_mset x (mset ys)"
  by (induction ys) auto

lemma mset_array_sort_any: "mset (array_sort cmp xs) = mset xs"
  by (induction xs) (simp_all add: array_sort_def mset_insert_sorted)

lemma set_array_sort_any: "set (array_sort cmp xs) = set xs"
  using mset_array_sort_any [of cmp xs] by (metis set_mset_mset)

lemma insert_sorted_cong:
  "\<forall>y \<in> set ys. cmp x y = cmp' x y \<Longrightarrow> insert_sorted cmp x ys = insert_sorted cmp' x ys"
  by (induction ys) auto

lemma array_sort_cong:
  "\<forall>a \<in> set xs. \<forall>b \<in> set xs. cmp a b = cmp' a b \<Longrightarrow> array_sort cmp xs = array_sort cmp' xs"
proof (induction xs)
  case Nil
  then show ?case by (simp add: array_sort_def)
next
  case (Cons x xs)
  then have ih: "array_sort cmp xs = array_sort cmp' xs"
    by simp
  have "\<forall>y \<in> set (array_sort cmp' xs). cmp x y = cmp' x y"
    using Cons.prems by (simp add: set_array_sort_any)
  then have "insert_sorted cmp x (array_sort cmp' xs) = insert_sorted cmp' x (array_sort cmp' xs)"
    by (rule insert_sorted_cong)
  with ih show ?case
    by (simp add: array_sort_def)
qed

section \<open>Assignment to a property\<close>

lemma set_insert_index: "set (insert_index n k v obj) = insert (k, v) (set obj)"
  by (induction obj) (auto split: option.splits)

lemma length_insert_index: "length (insert_index n k v obj) = Suc (length obj)"
  by (induction obj) (auto split: option.splits)

lemma distinct_insert_index:
  "k \<notin> fst ` set obj \<Longrightarrow> distinct (map fst obj) \<Longrightarrow> distinct (map fst (insert_index n k v obj))"
  by (induction obj) (auto simp: set_insert_index split: option.splits)

lemma map_of_insert_index:
  "k \<notin> fst ` set obj \<Longrightarrow> map_of (insert_index n k v obj) = (map_of obj)(k \<mapsto> v)"
proof (induction obj)
  case Nil
  then show ?case by simp
next
  case (Cons p obj)
  then have "fst p \<noteq> k" and ih: "map_of (insert_index n k v obj) = (map_of obj)(k \<mapsto> v)"
    by auto
  then show ?case
    by (cases p) (auto simp: fun_eq_iff split: option.splits)
qed

lemma not_own: "map_of obj k = None \<longleftrightarrow> k \<notin> fst ` set obj"
  by (simp add: map_of_eq_None_iff)

lemma map_of_snoc:
  "k \<notin> fst ` set obj \<Longrightarrow> map_of (obj @ [(k, v)]) = (map_of obj)(k \<mapsto> v)"
  by (induction obj) (auto simp: fun_eq_iff)

lemma map_of_obj_put:
  "k \<noteq> ''__proto__'' \<Longrightarrow> map_of (obj_put k v obj) = (map_of obj)(k \<mapsto> v)"
  by (auto simp: obj_put_def update_conv' map_of_insert_index map_of_snoc not_own
      simp del: map_of_append split: option.splits)

lemma distinct_obj_put: "distinct (map fst obj) \<Longrightarrow> distinct (map fst (obj_put k v obj))"
  by (auto simp: obj_put_def distinct_update distinct_insert_index not_own split: option.splits)

lemma keys_obj_put:
  "k \<noteq> ''__proto__'' \<Longrightarrow> fst ` set (obj_put k v obj) = insert k (fst ` set obj)"
  using map_of_obj_put [of k v obj] by (metis dom_map_of_conv_image_fst dom_fun_upd option.simps(3))

lemma length_update_le: "length (AList.update k v al) \<le> Suc (length al)"
  by (induction al) auto

lemma length_obj_put_le: "length (obj_put k v obj) \<le> Suc (length obj)"
  by (auto simp: obj_put_def length_update_le length_insert_index split: option.splits)

lemma mem_obj_put: "k \<noteq> ''__proto__'' \<Longrightarrow> (k, v) \<in> set (obj_put k v obj)"
proof -
  assume "k \<noteq> ''__proto__''"
  moreover have "(k, v) \<in> set (AList.update k v obj)"
    by (induction obj) auto
  ultimately show ?thesis
    by (auto simp: obj_put_def set_insert_index split: option.splits)
qed

lemma set_update_distinct:
  "distinct (map fst al) \<Longrightarrow> x \<in> set (AList.update k v al) \<Longrightarrow>
   x = (k, v) \<or> (x \<in> set al \<and> fst x \<noteq> k)"
  by (induction al) (auto split: if_splits)

lemma set_obj_put_distinct:
  assumes "distinct (map fst obj)" "k \<noteq> ''__proto__''" "x \<in> set (obj_put k v obj)"
  shows "x = (k, v) \<or> (x \<in> set obj \<and> fst x \<noteq> k)"
proof (cases "map_of obj k")
  case None
  then have "k \<notin> fst ` set obj"
    by (simp add: not_own)
  then have "\<forall>y \<in> set obj. fst y \<noteq> k"
    by auto
  moreover have "x = (k, v) \<or> x \<in> set obj"
    using assms(2,3) None by (auto simp: obj_put_def set_insert_index split: option.splits)
  ultimately show ?thesis by blast
next
  case (Some a)
  then have "obj_put k v obj = AList.update k v obj"
    by (simp add: obj_put_def)
  with assms(1,3) show ?thesis
    by (simp add: set_update_distinct)
qed

section \<open>Properties of the record store\<close>

lemma savedTweets_updateAuthorTweetCount [simp]:
  "savedTweets (updateAuthorTweetCount nowIso st h) = savedTweets st"
  by (simp add: updateAuthorTweetCount_def Let_def split: option.split list.split)

lemma addTweet_tags_agrees:
  "fst (addTweet_tags jl nowIso st t) = fst (addTweet jl (savedTweets st) t) \<and>
   savedTweets (snd (addTweet_tags jl nowIso st t)) = snd (addTweet jl (savedTweets st) t)"
  by (simp add: addTweet_tags_def addTweet_def Let_def)

lemma deleteTweet_tags_agrees:
  "fst (deleteTweet_tags nowIso st i) = fst (deleteTweet (savedTweets st) i) \<and>
   savedTweets (snd (deleteTweet_tags nowIso st i)) = snd (deleteTweet (savedTweets st) i)"
  by (simp add: deleteTweet_tags_def deleteTweet_def Let_def split: option.split)

text \<open>
  C5. Adding a record whose id equals the id of a record already stored answers
  \<open>{ success: false, duplicate: true }\<close> (the spec's accepted = false, duplicate = true)
  and leaves the stored data as it was: the list of tweets in both background scripts,
  and the author tags as well in the variant that keeps them.
\<close>

theorem addTweet_duplicate_rejected:
  assumes "t \<in> set (savedTweets st)" and "tweet_id t = tweet_id tweetData"
  shows "addTweet jl (savedTweets st) tweetData
           = (\<lparr>success = False, duplicate = Some True\<rparr>, savedTweets st) \<and>
         addTweet_tags jl nowIso st tweetData
           = (\<lparr>success = False, duplicate = Some True\<rparr>, st)"
proof -
  have "list_ex (\<lambda>u. tweet_id u = tweet_id tweetData) (savedTweets st)"
    using assms by (auto simp: list_ex_iff)
  then show ?thesis
    by (simp add: addTweet_def addTweet_tags_def)
qed

theorem addTweet_duplicate_rejected_witness:
  "mk_tweet ''102'' ''bob'' [''TSLA'', ''AAPL''] \<in> set (savedTweets three_stored) \<and>
   tweet_id (mk_tweet ''102'' ''bob'' [''TSLA'', ''AAPL''])
     = tweet_id (mk_tweet ''102'' ''carol'' []) \<and>
   addTweet text_chars (savedTweets three_stored) (mk_tweet ''102'' ''carol'' [])
     = (\<lparr>success = False, duplicate = Some True\<rparr>, savedTweets three_stored) \<and>
   addTweet_tags text_chars ''now'' three_stored (mk_tweet ''102'' ''carol'' [])
     = (\<lparr>success = False, duplicate = Some True\<rparr>, three_stored)"
proof -
  have m: "mk_tweet ''102'' ''bob'' [''TSLA'', ''AAPL''] \<in> set (savedTweets three_stored)"
    by (simp add: three_stored_def three_tweets_def)
  have i: "tweet_id (mk_tweet ''102'' ''bob'' [''TSLA'', ''AAPL''])
             = tweet_id (mk_tweet ''102'' ''carol'' [])"
    by (simp add: mk_tweet_def)
  show ?thesis
    using m i addTweet_duplicate_rejected [OF m i, of text_chars "''now''"]
    by simp
qed

text \<open>
  C10. Deleting by id always answers \<open>{ success: true }\<close>. The list stored afterwards
  holds no record with that id, keeps every other record with its multiplicity and in
  its relative order, and is the list as it was when no record has the id. The variant
  with author tags stores the same list.
\<close>

theorem deleteTweet_removes_all_matches:
  "fst (deleteTweet tweets i) = \<lparr>success = True, duplicate = None\<rparr> \<and>
   (\<forall>t \<in> set (snd (deleteTweet tweets i)). tweet_id t \<noteq> i) \<and>
   (\<forall>t. tweet_id t \<noteq> i \<longrightarrow>
        count_list (snd (deleteTweet tweets i)) t = count_list tweets t) \<and>
   subseq (snd (deleteTweet tweets i)) tweets \<and>
   ((\<forall>t \<in> set tweets. tweet_id t \<noteq> i) \<longrightarrow> snd (deleteTweet tweets i) = tweets) \<and>
   fst (deleteTweet_tags nowIso st i) = \<lparr>success = True, duplicate = None\<rparr> \<and>
   savedTweets (snd (deleteTweet_tags nowIso st i)) = snd (deleteTweet (savedTweets st) i)"
proof -
  let ?kept = "filter (\<lambda>t. tweet_id t \<noteq> i) tweets"
  have cnt: "count_list (filter P xs) t = (if P t then count_list xs t else 0)"
    for P and xs :: "tweet list" and t
    by (induction xs) auto
  have "\<forall>t. tweet_id t \<noteq> i \<longrightarrow> count_list ?kept t = count_list tweets t"
    by (simp add: cnt)
  moreover have "subseq ?kept tweets"
    by simp
  moreover have "(\<forall>t \<in> set tweets. tweet_id t \<noteq> i) \<longrightarrow> ?kept = tweets"
    by (simp add: filter_id_conv)
  ultimately show ?thesis
    using deleteTweet_tags_agrees [of nowIso st i]
    by (simp add: deleteTweet_def)
qed

theorem deleteTweet_removes_all_matches_witness:
  "snd (deleteTweet three_tweets ''102'')
     = [mk_tweet ''103'' ''alice'' [''AAPL''], mk_tweet ''101'' ''alice'' [''GME'']] \<and>
   count_list (snd (deleteTweet three_tweets ''102'')) (mk_tweet ''101'' ''alice'' [''GME''])
     = count_list three_tweets (mk_tweet ''101'' ''alice'' [''GME'']) \<and>
   deleteTweet three_tweets ''999'' = (\<lparr>success = True, duplicate = None\<rparr>, three_tweets)"
proof -
  have none: "\<forall>t \<in> set three_tweets. tweet_id t \<noteq> ''999''"
    by (simp add: three_tweets_def mk_tweet_def)
  have other: "tweet_id (mk_tweet ''101'' ''alice'' [''GME'']) \<noteq> ''102''"
    by (simp add: mk_tweet_def)
  have "snd (deleteTweet three_tweets ''102'')
          = [mk_tweet ''103'' ''alice'' [''AAPL''], mk_tweet ''101'' ''alice'' [''GME'']]"
    by (simp add: deleteTweet_def three_tweets_def mk_tweet_def)
  then show ?thesis
    using none other deleteTweet_removes_all_matches [of three_tweets "''102''"]
      deleteTweet_removes_all_matches [of three_tweets "''999''"]
    by (simp add: prod_eq_iff)
qed

text \<open>
  C6. Adding a record whose id is not stored yet puts it in front of the list. When the
  serialisation of that list is longer than 90000, exactly one record is removed, the
  last one (the oldest), and nothing more: the list stored is the new list without its
  last element, whatever its size, so it can still be over the cap. Below the cap the
  new list is stored whole. The new record is at the front of what is stored unless the
  list was empty and the record alone is over the cap: then the record popped is the new
  one. The variant with author tags stores the same list.
\<close>

theorem addTweet_prepends_and_pops_once:
  assumes "\<forall>t \<in> set tweets. tweet_id t \<noteq> tweet_id tweetData"
  shows "fst (addTweet jl tweets tweetData) = \<lparr>success = True, duplicate = None\<rparr> \<and>
         (jl (tweetData # tweets) \<le> 90000 \<longrightarrow>
            snd (addTweet jl tweets tweetData) = tweetData # tweets) \<and>
         (jl (tweetData # tweets) > 90000 \<longrightarrow>
            snd (addTweet jl tweets tweetData) @ [last (tweetData # tweets)] = tweetData # tweets \<and>
            length (snd (addTweet jl tweets tweetData)) = length tweets \<and>
            snd (addTweet jl tweets tweetData) = butlast (tweetData # tweets)) \<and>
         (tweets \<noteq> [] \<longrightarrow> hd (snd (addTweet jl tweets tweetData)) = tweetData) \<and>
         (tweets = [] \<and> jl [tweetData] > 90000 \<longrightarrow> snd (addTweet jl tweets tweetData) = []) \<and>
         length tweets \<le> length (snd (addTweet jl tweets tweetData)) \<and>
         (jl (tweetData # tweets) > 90000 \<and> jl (butlast (tweetData # tweets)) > 90000 \<longrightarrow>
            jl (snd (addTweet jl tweets tweetData)) > 90000) \<and>
         savedTweets (snd (addTweet_tags jl nowIso (st\<lparr>savedTweets := tweets\<rparr>) tweetData))
           = snd (addTweet jl tweets tweetData)"
proof -
  have fresh: "\<not> list_ex (\<lambda>t. tweet_id t = tweet_id tweetData) tweets"
    using assms by (auto simp: list_ex_iff)
  have tags: "savedTweets (snd (addTweet_tags jl nowIso (st\<lparr>savedTweets := tweets\<rparr>) tweetData))
                = snd (addTweet jl tweets tweetData)"
    using addTweet_tags_agrees [of jl nowIso "st\<lparr>savedTweets := tweets\<rparr>" tweetData] by simp
  have front: "hd (butlast (tweetData # tweets)) = tweetData" if "tweets \<noteq> []"
    using that by simp
  have alone: "butlast (tweetData # tweets) = []" if "tweets = []"
    using that by simp
  show ?thesis
  proof (cases "jl (tweetData # tweets) > 90000")
    case True
    then have "snd (addTweet jl tweets tweetData) = butlast (tweetData # tweets)"
      using fresh by (simp add: addTweet_def)
    moreover have "fst (addTweet jl tweets tweetData) = \<lparr>success = True, duplicate = None\<rparr>"
      using fresh by (simp add: addTweet_def Let_def)
    moreover have "butlast (tweetData # tweets) @ [last (tweetData # tweets)] = tweetData # tweets"
      by (rule append_butlast_last_id) simp
    ultimately show ?thesis
      using True tags front alone by (auto simp del: butlast.simps last.simps)
  next
    case False
    then have "addTweet jl tweets tweetData = (\<lparr>success = True, duplicate = None\<rparr>, tweetData # tweets)"
      using fresh by (simp add: addTweet_def)
    then show ?thesis
      using False tags by auto
  qed
qed

theorem addTweet_prepends_and_pops_once_witness:
  "snd (addTweet text_chars [long_tweet ''1'', long_tweet ''2''] (long_tweet ''3''))
     = [long_tweet ''3'', long_tweet ''1''] \<and>
   text_chars (snd (addTweet text_chars [long_tweet ''1'', long_tweet ''2''] (long_tweet ''3'')))
     = 100000 \<and>
   snd (addTweet text_chars three_tweets (mk_tweet ''104'' ''carol'' [''NVDA'']))
     = mk_tweet ''104'' ''carol'' [''NVDA''] # three_tweets"
proof -
  let ?old = "[long_tweet ''1'', long_tweet ''2'']"
  have new3: "\<forall>t \<in> set ?old. tweet_id t \<noteq> tweet_id (long_tweet ''3'')"
    by (simp add: long_tweet_def mk_tweet_def)
  have over: "text_chars (long_tweet ''3'' # ?old) > 90000"
    by (simp add: text_chars_def long_tweet_def mk_tweet_def)
  have still: "text_chars (butlast (long_tweet ''3'' # ?old)) = 100000"
    by (simp add: text_chars_def long_tweet_def mk_tweet_def)
  have new4: "\<forall>t \<in> set three_tweets. tweet_id t \<noteq> tweet_id (mk_tweet ''104'' ''carol'' [''NVDA''])"
    by (simp add: three_tweets_def mk_tweet_def)
  have under: "text_chars (mk_tweet ''104'' ''carol'' [''NVDA''] # three_tweets) \<le> 90000"
    by (simp add: text_chars_def three_tweets_def mk_tweet_def)
  show ?thesis
    using addTweet_prepends_and_pops_once [OF new3, of text_chars]
      addTweet_prepends_and_pops_once [OF new4, of text_chars] over still under
    by simp
qed

section \<open>Properties of getStats\<close>

lemma own_key_not_proto: "inherited_text k = None \<Longrightarrow> k \<noteq> ''__proto__''"
  by (auto simp: inherited_text_def)

lemma all_numbers_lookup:
  "all_numbers cs \<Longrightarrow> map_of cs k = Some v \<Longrightarrow> v = Num (number_of v)"
  by (auto simp: all_numbers_def dest!: map_of_SomeD)

text \<open>On a key that is not inherited, and an object of numbers, \<open>bump\<close> counts.\<close>

lemma bump_counts:
  assumes "inherited_text k = None" "all_numbers cs"
  shows "bump k cs
           = obj_put k (Num (Suc (case map_of cs k of Some v \<Rightarrow> number_of v | None \<Rightarrow> 0))) cs"
proof (cases "map_of cs k")
  case None
  with assms(1) show ?thesis by (simp add: bump_def)
next
  case (Some v)
  with assms(2) have "v = Num (number_of v)"
    by (rule all_numbers_lookup)
  then obtain n where "v = Num n" ..
  with Some show ?thesis by (simp add: bump_def)
qed

lemma map_of_bump:
  assumes "inherited_text k = None" "all_numbers cs"
  shows "map_of (bump k cs) k' =
     (if k' = k then Some (Num (Suc (case map_of cs k of Some v \<Rightarrow> number_of v | None \<Rightarrow> 0)))
      else map_of cs k')"
  using own_key_not_proto [OF assms(1)]
  by (simp add: bump_counts [OF assms] map_of_obj_put)

lemma distinct_bump: "distinct (map fst cs) \<Longrightarrow> distinct (map fst (bump k cs))"
  by (simp add: bump_def distinct_obj_put)

lemma all_numbers_bump:
  assumes "inherited_text k = None" "all_numbers cs" "distinct (map fst cs)"
  shows "all_numbers (bump k cs)"
proof -
  have "\<exists>n. snd p = Num n" if "p \<in> set (bump k cs)" for p
  proof -
    have "p = (k, Num (Suc (case map_of cs k of Some v \<Rightarrow> number_of v | None \<Rightarrow> 0)))
            \<or> (p \<in> set cs \<and> fst p \<noteq> k)"
      using that set_obj_put_distinct [OF assms(3) own_key_not_proto [OF assms(1)]]
      by (simp add: bump_counts [OF assms(1,2)])
    then show ?thesis
      using assms(2) by (auto simp: all_numbers_def)
  qed
  then show ?thesis by (simp add: all_numbers_def)
qed

lemma keys_bump:
  "inherited_text k = None \<Longrightarrow> all_numbers cs \<Longrightarrow> fst ` set (bump k cs) = insert k (fst ` set cs)"
  by (simp add: bump_counts keys_obj_put own_key_not_proto)

lemma countEach_invariant:
  "own_keys_only ks \<Longrightarrow> all_numbers cs \<Longrightarrow> distinct (map fst cs) \<Longrightarrow>
   all_numbers (countEach ks cs) \<and> distinct (map fst (countEach ks cs)) \<and>
   fst ` set (countEach ks cs) = set ks \<union> fst ` set cs"
proof (induction ks arbitrary: cs)
  case Nil
  then show ?case by simp
next
  case (Cons k ks)
  then have k: "inherited_text k = None" and ks: "own_keys_only ks"
    by (simp_all add: own_keys_only_def)
  have "all_numbers (bump k cs)" "distinct (map fst (bump k cs))"
    using k Cons.prems by (simp_all add: all_numbers_bump distinct_bump)
  from Cons.IH [OF ks this] show ?case
    using k Cons.prems(2) by (auto simp: keys_bump)
qed

lemma map_of_countEach:
  "own_keys_only ks \<Longrightarrow> all_numbers cs \<Longrightarrow> distinct (map fst cs) \<Longrightarrow>
   map_of (countEach ks cs) k =
     (if k \<in> set ks \<or> k \<in> fst ` set cs
      then Some (Num (count_list ks k + (case map_of cs k of Some v \<Rightarrow> number_of v | None \<Rightarrow> 0)))
      else None)"
proof (induction ks arbitrary: cs)
  case Nil
  show ?case
  proof (cases "map_of cs k")
    case None
    then show ?thesis by (simp add: map_of_eq_None_iff)
  next
    case (Some v)
    then have "(k, v) \<in> set cs" by (rule map_of_SomeD)
    then have "k \<in> fst ` set cs" by force
    moreover have "v = Num (number_of v)"
      using Nil.prems(2) Some by (rule all_numbers_lookup)
    ultimately show ?thesis using Some by simp
  qed
next
  case (Cons a ks)
  then have a: "inherited_text a = None" and ks: "own_keys_only ks"
    by (simp_all add: own_keys_only_def)
  have inv: "all_numbers (bump a cs)" "distinct (map fst (bump a cs))"
    using a Cons.prems by (simp_all add: all_numbers_bump distinct_bump)
  show ?case
    using a Cons.prems(2)
    by (simp add: Cons.IH [OF ks inv] map_of_bump keys_bump)
qed

lemma countEach_append: "countEach (xs @ ys) cs = countEach ys (countEach xs cs)"
  by (induction xs arbitrary: cs) simp_all

text \<open>The two counters of the nested \<open>forEach\<close> are independent folds over flat lists.\<close>

lemma tally_flat:
  "tally tweets (tc, ac) =
     (countEach (all_tickers tweets) tc, countEach (all_authors tweets) ac)"
  by (induction tweets arbitrary: tc ac)
     (simp_all add: all_tickers_def all_authors_def countEach_append)

lemma clean_start: "all_numbers []" "distinct (map fst ([] :: counts))"
  by (simp_all add: all_numbers_def)

lemma in_countEach:
  assumes "own_keys_only ks"
  shows "(k, v) \<in> set (countEach ks []) \<longleftrightarrow> k \<in> set ks \<and> v = Num (count_list ks k)"
proof -
  have d: "distinct (map fst (countEach ks []))"
    using countEach_invariant [OF assms clean_start] by simp
  have "(k, v) \<in> set (countEach ks []) \<longleftrightarrow> map_of (countEach ks []) k = Some v"
    using d by simp
  then show ?thesis
    by (auto simp: map_of_countEach [OF assms clean_start])
qed

lemma length_countEach:
  assumes "own_keys_only ks"
  shows "length (countEach ks []) = card (set ks)"
proof -
  have inv: "distinct (map fst (countEach ks []))" "fst ` set (countEach ks []) = set ks"
    using countEach_invariant [OF assms clean_start] by simp_all
  have "length (countEach ks []) = length (map fst (countEach ks []))" by simp
  also have "\<dots> = card (set (map fst (countEach ks [])))"
    by (rule distinct_card [symmetric]) (rule inv(1))
  also have "\<dots> = card (set ks)"
    using inv(2) by simp
  finally show ?thesis .
qed

lemma top5_of_counts:
  fixes ks :: "string list"
  defines "best \<equiv> take 5 (array_sort by_count (countEach ks []))"
  assumes own: "own_keys_only ks"
  shows "length best = min 5 (card (set ks)) \<and> top_counts_of ks best"
proof -
  let ?cs = "countEach ks []"
  let ?f = "\<lambda>e :: string \<times> count. int (number_of (snd e))"
  let ?sorted = "array_sort (\<lambda>a b. ?f b - ?f a) ?cs"
  have val: "snd e = Num (count_list ks (fst e))" "fst e \<in> set ks" if "e \<in> set ?cs" for e
    using that in_countEach [OF own, of "fst e" "snd e"] by simp_all
  have "\<forall>a \<in> set ?cs. \<forall>b \<in> set ?cs. by_count a b = ?f b - ?f a"
    by (auto simp: by_count_def dest!: val(1))
  then have same: "array_sort by_count ?cs = ?sorted"
    by (rule array_sort_cong)
  have best: "best = take 5 ?sorted"
    by (simp add: best_def same)
  have desc: "sorted_wrt (\<lambda>a b. ?f b \<le> ?f a) ?sorted"
    by (rule array_sort_desc)
  have f: "?f e = int (count_list ks (fst e))" if "e \<in> set ?sorted" for e
    using that val(1) [of e] by simp
  have len: "length best = min 5 (card (set ks))"
    by (simp add: best length_countEach [OF own])
  have sub: "set best \<subseteq> set ?cs"
    using set_take_subset [of 5 ?sorted] by (simp add: best)
  have "sorted_wrt (\<lambda>a b. ?f b \<le> ?f a) best"
    using desc by (simp add: best)
  then have srt: "sorted_wrt (\<lambda>a b. count_list ks (fst b) \<le> count_list ks (fst a)) best"
  proof (rule sorted_wrt_mono_rel [rotated])
    fix a b
    assume ab: "a \<in> set best" "b \<in> set best" and le: "?f b \<le> ?f a"
    from ab sub have "a \<in> set ?cs" "b \<in> set ?cs" by blast+
    then have "snd a = Num (count_list ks (fst a))" "snd b = Num (count_list ks (fst b))"
      by (simp_all add: val(1))
    with le show "count_list ks (fst b) \<le> count_list ks (fst a)"
      by simp
  qed
  have "mset (map fst ?sorted) = mset (map fst ?cs)"
    by simp
  moreover have "distinct (map fst ?cs)"
    using countEach_invariant [OF own clean_start] by simp
  ultimately have "distinct (map fst ?sorted)"
    by (metis mset_eq_imp_distinct_iff)
  then have dst: "distinct (map fst best)"
    by (simp add: best take_map [symmetric])
  have cnt: "\<forall>(k, c) \<in> set best. k \<in> set ks \<and> c = Num (count_list ks k)"
    using sub in_countEach [OF own] by blast
  have rest: "\<forall>k \<in> set ks. k \<notin> fst ` set best \<longrightarrow>
                (\<forall>k' \<in> fst ` set best. count_list ks k \<le> count_list ks k')"
  proof (intro ballI impI)
    fix k k'
    assume k: "k \<in> set ks" "k \<notin> fst ` set best" and t: "k' \<in> fst ` set best"
    from t obtain e where e: "e \<in> set best" "fst e = k'" by auto
    have "(k, Num (count_list ks k)) \<in> set ?sorted"
      using k(1) by (simp add: in_countEach [OF own])
    moreover have "(k, Num (count_list ks k)) \<notin> set (take 5 ?sorted)"
      using k(2) by (force simp: best)
    ultimately have "(k, Num (count_list ks k)) \<in> set (drop 5 ?sorted)"
      by (rule in_drop_if_not_in_take)
    then have "?f (k, Num (count_list ks k)) \<le> ?f e"
      using sorted_wrt_take_drop [OF desc, of e 5 "(k, Num (count_list ks k))"] e(1)
      by (simp add: best)
    moreover have "?f e = int (count_list ks k')"
    proof -
      from e(1) sub have "e \<in> set ?cs" by blast
      then have "snd e = Num (count_list ks (fst e))" by (rule val(1))
      with e(2) show ?thesis by simp
    qed
    ultimately show "count_list ks k \<le> count_list ks k'" by simp
  qed
  show ?thesis
    using len srt dst cnt rest by (simp add: top_counts_of_def)
qed

lemma getStats_fields:
  "totalTweets (getStats tweets) = length tweets"
  "totalTickers (getStats tweets) = length (countEach (all_tickers tweets) [])"
  "topTickers (getStats tweets) = take 5 (array_sort by_count (countEach (all_tickers tweets) []))"
  "topAuthors (getStats tweets) = take 5 (array_sort by_count (countEach (all_authors tweets) []))"
  "recentTweets (getStats tweets) = take 3 tweets"
  by (simp_all add: getStats_def tally_flat)

text \<open>
  What \<open>getStats\<close> returns when no ticker and no author of the list is the name of a
  member of \<open>Object.prototype\<close>: the number of records, the number of distinct tickers,
  the (at most five) tickers mentioned most often with their counts, largest count first,
  the same for the non-empty authors, and the first three records of the list as stored.
  The number of records and the first three records are right for every list, and on the
  empty list the counts are zero and the lists are empty.
\<close>

lemma getStats_without_inherited_keys:
  "totalTweets (getStats tweets) = length tweets \<and>
   recentTweets (getStats tweets) = take 3 tweets \<and>
   getStats [] = \<lparr>totalTweets = 0, totalTickers = 0, topTickers = [], topAuthors = [],
                  recentTweets = []\<rparr> \<and>
   (own_keys_only (all_tickers tweets) \<longrightarrow>
      totalTickers (getStats tweets) = card (set (all_tickers tweets)) \<and>
      length (topTickers (getStats tweets)) = min 5 (card (set (all_tickers tweets))) \<and>
      top_counts_of (all_tickers tweets) (topTickers (getStats tweets))) \<and>
   (own_keys_only (all_authors tweets) \<longrightarrow>
      length (topAuthors (getStats tweets)) = min 5 (card (set (all_authors tweets))) \<and>
      top_counts_of (all_authors tweets) (topAuthors (getStats tweets)))"
proof -
  have "getStats [] = \<lparr>totalTweets = 0, totalTickers = 0, topTickers = [], topAuthors = [],
                       recentTweets = []\<rparr>"
    by (simp add: getStats_def array_sort_def)
  then show ?thesis
    using top5_of_counts [of "all_tickers tweets"] top5_of_counts [of "all_authors tweets"]
    by (simp add: getStats_fields length_countEach)
qed

lemma three_tweets_stats:
  "getStats three_tweets =
     \<lparr>totalTweets = 3, totalTickers = 3,
      topTickers = [(''AAPL'', Num 2), (''TSLA'', Num 1), (''GME'', Num 1)],
      topAuthors = [(''alice'', Num 2), (''bob'', Num 1)], recentTweets = three_tweets\<rparr>"
  by code_simp

text \<open>
  C7, at a list with one record whose author is \<open>constructor\<close>, and at one whose author
  is \<open>__proto__\<close>: the first author is listed with a string where the count 1 belongs,
  the second is not listed at all.
\<close>

theorem getStats_inherited_author:
  "all_authors by_constructor = [''constructor''] \<and>
   topAuthors (getStats by_constructor)
     = [(''constructor'', Str ''function Object() { [native code] }1'')] \<and>
   topTickers (getStats by_constructor) = [(''AAPL'', Num 1)] \<and>
   all_authors by_proto = [''__proto__''] \<and>
   topAuthors (getStats by_proto) = []"
  by code_simp

section \<open>Properties of the quote cache\<close>

lemma length_saveStockCache: "length (saveStockCache cache) = min 50 (length cache)"
  by (simp add: saveStockCache_def)

lemma mset_take_drop: "mset (take n xs) + mset (drop n xs) = mset xs"
  by (metis append_take_drop_id mset_append)

lemma mset_saveStockCache: "mset (saveStockCache cache) \<subseteq># mset cache"
proof (cases "length cache > 50")
  case True
  let ?sorted = "array_sort (\<lambda>a b. timestamp (snd b) - timestamp (snd a)) cache"
  have "mset (take 50 ?sorted) \<subseteq># mset ?sorted"
    using mset_take_drop [of 50 ?sorted] by (metis mset_subset_eq_add_left)
  with True show ?thesis
    by (simp add: saveStockCache_def)
next
  case False
  then show ?thesis by (simp add: saveStockCache_def)
qed

lemma distinct_saveStockCache:
  assumes "distinct (map fst cache)"
  shows "distinct (map fst (saveStockCache cache))"
proof (cases "length cache > 50")
  case True
  let ?sorted = "array_sort (\<lambda>a b. timestamp (snd b) - timestamp (snd a)) cache"
  have "mset (map fst ?sorted) = mset (map fst cache)"
    by simp
  then have "distinct (map fst ?sorted)"
    using assms by (metis mset_eq_imp_distinct_iff)
  then have "distinct (take 50 (map fst ?sorted))"
    by simp
  with True show ?thesis
    by (simp add: saveStockCache_def take_map)
next
  case False
  with assms show ?thesis by (simp add: saveStockCache_def)
qed

text \<open>
  C2. Whenever the cache handed to \<open>saveStockCache\<close> (the cache right after a put)
  holds more than 50 entries, exactly 50 of its entries are stored. Every entry stored is
  at least as recent as every entry dropped, and of two entries with the same timestamp
  the one stored comes first in the entry order of the cache. The stored object lists
  them newest first.
\<close>

theorem saveStockCache_keeps_50_most_recent:
  assumes "length cache > 50"
  shows "length (saveStockCache cache) = 50 \<and>
         mset (saveStockCache cache) \<subseteq># mset cache \<and>
         sorted_wrt (\<lambda>a b. timestamp (snd b) \<le> timestamp (snd a)) (saveStockCache cache) \<and>
         (\<forall>x \<in> set (saveStockCache cache). \<forall>y \<in> set cache - set (saveStockCache cache).
            timestamp (snd y) \<le> timestamp (snd x) \<and>
            (timestamp (snd y) = timestamp (snd x) \<longrightarrow> precedes cache x y))"
proof -
  let ?ts = "\<lambda>e :: string \<times> 'a cache_entry. timestamp (snd e)"
  let ?sorted = "array_sort (\<lambda>a b. ?ts b - ?ts a) cache"
  have kept: "saveStockCache cache = take 50 ?sorted"
    using assms by (simp add: saveStockCache_def)
  have desc: "sorted_wrt (\<lambda>a b. ?ts b \<le> ?ts a) ?sorted"
    by (rule array_sort_desc)
  have len: "length (saveStockCache cache) = 50"
    using assms by (simp add: length_saveStockCache)
  have srt: "sorted_wrt (\<lambda>a b. ?ts b \<le> ?ts a) (saveStockCache cache)"
    using desc by (simp add: kept)
  have cmp: "?ts y \<le> ?ts x \<and> (?ts y = ?ts x \<longrightarrow> precedes cache x y)"
    if x: "x \<in> set (saveStockCache cache)"
      and y: "y \<in> set cache - set (saveStockCache cache)" for x y
  proof -
    have xt: "x \<in> set (take 50 ?sorted)"
      using x by (simp add: kept)
    have "y \<in> set ?sorted" "y \<notin> set (take 50 ?sorted)"
      using y by (simp_all add: kept)
    then have yd: "y \<in> set (drop 50 ?sorted)"
      by (rule in_drop_if_not_in_take)
    have older: "?ts y \<le> ?ts x"
      using sorted_wrt_take_drop [OF desc xt yd] .
    have tie: "precedes cache x y" if eq: "?ts y = ?ts x"
    proof -
      let ?P = "\<lambda>e. ?ts e = ?ts x"
      have "precedes ?sorted x y"
        using xt yd by (rule precedes_take_drop)
      then have "precedes (filter ?P ?sorted) x y"
        using eq by (simp add: precedes_filter_iff)
      then have "precedes (filter ?P cache) x y"
        by (simp only: array_sort_stable)
      then show ?thesis
        using eq by (simp add: precedes_filter_iff)
    qed
    from older tie show ?thesis by blast
  qed
  show ?thesis
    using len mset_saveStockCache [of cache] srt cmp by blast
qed

theorem saveStockCache_keeps_50_most_recent_witness:
  "length cache51 = 51 \<and>
   saveStockCache cache51 = kept50 \<and>
   length (saveStockCache cache51) = 50 \<and>
   precedes cache51 (''AA'', \<lparr>data = (), timestamp = 0\<rparr>) (''AB'', \<lparr>data = (), timestamp = 0\<rparr>)"
proof -
  have l: "length cache51 > 50"
    by (simp add: cache51_def)
  have ev: "saveStockCache cache51 = kept50"
    by code_simp
  have x: "(''AA'', \<lparr>data = (), timestamp = 0\<rparr>) \<in> set (saveStockCache cache51)"
    unfolding ev by (simp add: kept50_def)
  have y: "(''AB'', \<lparr>data = (), timestamp = 0\<rparr>) \<in> set cache51 - set (saveStockCache cache51)"
    unfolding ev by (simp add: kept50_def cache51_def)
  have "length cache51 = 51"
    by (simp add: cache51_def)
  then show ?thesis
    using saveStockCache_keeps_50_most_recent [OF l] x y ev by auto
qed

section \<open>Properties of the performance computation\<close>

lemma scanForward_drop:
  "scanForward cl i =
     (if valid_closes (drop i cl) = [] then None else Some (hd (valid_closes (drop i cl))))"
proof (induction cl i rule: scanForward.induct)
  case (1 cl i)
  show ?case
  proof (cases "i < length cl")
    case True
    then have d: "drop i cl = cl ! i # drop (i + 1) cl"
      by (simp add: Cons_nth_drop_Suc)
    show ?thesis
    proof (cases "cl ! i")
      case None
      with True "1.IH" d show ?thesis
        by (subst scanForward.simps) (simp add: valid_closes_def)
    next
      case (Some v)
      with True d show ?thesis
        by (subst scanForward.simps) (simp add: valid_closes_def)
    qed
  next
    case False
    then show ?thesis
      by (subst scanForward.simps) (simp add: valid_closes_def)
  qed
qed

lemma scanBackward_take:
  "n \<le> length cl \<Longrightarrow>
   scanBackward cl n =
     (if valid_closes (take n cl) = [] then None else Some (last (valid_closes (take n cl))))"
proof (induction n)
  case 0
  then show ?case by (simp add: valid_closes_def)
next
  case (Suc n)
  then have t: "take (Suc n) cl = take n cl @ [cl ! n]"
    by (simp add: take_Suc_conv_app_nth)
  show ?case
  proof (cases "cl ! n")
    case None
    with Suc t show ?thesis by (simp add: valid_closes_def)
  next
    case (Some v)
    with t show ?thesis by (simp add: valid_closes_def)
  qed
qed

text \<open>
  What the code computes for every array: \<open>null\<close> when no close is non-null or the first
  non-null close is 0, and otherwise the change from the first to the last non-null
  close, in percent of the first. One non-null close is enough for a number.
\<close>

lemma performanceOfCloses_valid:
  "performanceOfCloses cl =
     (if valid_closes cl = [] \<or> hd (valid_closes cl) = 0 then None
      else Some ((last (valid_closes cl) - hd (valid_closes cl)) / hd (valid_closes cl) * 100))"
  by (simp add: performanceOfCloses_def scanForward_drop scanBackward_take)

text \<open>
  C1, at an array with exactly one non-null close: the answer is 0, not \<open>null\<close>.
\<close>

theorem fetchPerformanceForRange_single_close:
  "length (valid_closes [None, Some 100, None]) = 1 \<and>
   performanceOfCloses [None, Some 100, None] = Some 0 \<and>
   fetchPerformanceForRange chart_only ''AAPL'' ''1mo'' ''1d''
     = (Some 0, [range_url ''AAPL'' ''1mo'' ''1d''])"
  by (simp add: fetchPerformanceForRange_def chart_only_def performanceOfCloses_valid
      valid_closes_def)

section \<open>Properties of the adapters and the resolver\<close>

lemma requests_fetchPerformanceForRange [simp]:
  "snd (fetchPerformanceForRange pf tkr rng ivl) = [range_url tkr rng ivl]"
  by (simp add: fetchPerformanceForRange_def Let_def)

lemma requests_withRanges [simp]: "snd (withRanges pf tkr s) = range_urls tkr"
  by (simp add: withRanges_def range_urls_def case_prod_beta)

lemma withRanges_core [simp]:
  "symbol (fst (withRanges pf tkr s)) = symbol s"
  "name (fst (withRanges pf tkr s)) = name s"
  "currentPrice (fst (withRanges pf tkr s)) = currentPrice s"
  by (simp_all add: withRanges_def case_prod_beta)

lemma withRanges_more [simp]:
  "marketCap (fst (withRanges pf tkr s)) = marketCap s"
  "marketCapFormatted (fst (withRanges pf tkr s)) = marketCapFormatted s"
  "source (fst (withRanges pf tkr s)) = source s"
  by (simp_all add: withRanges_def case_prod_beta)

lemma applyMeta_core [simp]:
  "symbol (applyMeta f tkr m s) = symbol s"
  "currentPrice (applyMeta f tkr m s) = regularMarketPrice m"
  by (simp_all add: applyMeta_def Let_def split: jsval.split)

lemma applyMeta_more [simp]:
  "marketCap (applyMeta f tkr m s) = marketCap s"
  "marketCapFormatted (applyMeta f tkr m s) = marketCapFormatted s"
  "source (applyMeta f tkr m s) = source s"
  by (simp_all add: applyMeta_def Let_def split: jsval.split)

lemma requests_fetchFromLocalServer [simp]:
  "snd (fetchFromLocalServer pf tkr) = [local_url tkr]"
  by (simp add: fetchFromLocalServer_def Let_def)

lemma requests_fetchFromYahooFinanceDirect:
  "snd (fetchFromYahooFinanceDirect pf tkr) = [quote_url tkr] \<or>
   snd (fetchFromYahooFinanceDirect pf tkr) = quote_url tkr # range_urls tkr"
  by (simp add: fetchFromYahooFinanceDirect_def Let_def case_prod_beta split: reply.split)

lemma requests_tryQuote_bg:
  "snd (tryQuote_bg pf tkr) = [quote_url tkr] \<or>
   snd (tryQuote_bg pf tkr) = quote_url tkr # range_urls tkr"
  by (simp add: tryQuote_bg_def Let_def case_prod_beta split: reply.split)

lemma direct_quote_fields:
  assumes "fst (fetchFromYahooFinanceDirect pf tkr) = Inr q"
  shows "symbol q = tkr \<and> marketCap q = Null \<and> marketCapFormatted q = ''N/A'' \<and>
         source q = ''yahoo-direct''"
  using assms
  by (auto simp: fetchFromYahooFinanceDirect_def Let_def case_prod_beta
      split: reply.splits if_splits option.splits)

lemma tryQuote_bg_symbol:
  assumes "fst (tryQuote_bg pf tkr) = Inr q"
  shows "symbol q = tkr"
  using assms
  by (auto simp: tryQuote_bg_def Let_def case_prod_beta
      split: reply.splits if_splits option.splits)

text \<open>The ways one call can go, as the source orders them.\<close>

lemma fetchStockInfo_unreadable:
  "\<not> get_resolves st \<Longrightarrow> fetchStockInfo pf now0 now1 st tkr = (Inl StorageRejected, st, [])"
  by (simp add: fetchStockInfo_def getStockCache_def)

lemma fetchStockInfo_hit:
  "get_resolves st \<Longrightarrow> freshEntry now0 (storedCache st) tkr = Some d \<Longrightarrow>
   fetchStockInfo pf now0 now1 st tkr = (Inr (Info d), st, [])"
  by (simp add: fetchStockInfo_def getStockCache_def)

lemma fetchStockInfo_local:
  "get_resolves st \<Longrightarrow> freshEntry now0 (storedCache st) tkr = None \<Longrightarrow>
   fst (fetchFromLocalServer pf tkr) = Some q \<Longrightarrow>
   fetchStockInfo pf now0 now1 st tkr
     = (if set_resolves st
        then (Inr (Info q),
              st\<lparr>stockCache := Some (saveStockCache
                     (obj_put tkr \<lparr>data = q, timestamp = now1\<rparr> (storedCache st)))\<rparr>,
              [local_url tkr])
        else (Inr (ErrorMarker tkr tkr), st, [local_url tkr]))"
  by (simp add: fetchStockInfo_def getStockCache_def writeStockCache_def case_prod_beta)

lemma fetchStockInfo_direct:
  "get_resolves st \<Longrightarrow> freshEntry now0 (storedCache st) tkr = None \<Longrightarrow>
   fst (fetchFromLocalServer pf tkr) = None \<Longrightarrow>
   fst (fetchFromYahooFinanceDirect pf tkr) = Inr q \<Longrightarrow>
   fetchStockInfo pf now0 now1 st tkr
     = (if set_resolves st
        then (Inr (Info q),
              st\<lparr>stockCache := Some (saveStockCache
                     (obj_put tkr \<lparr>data = q, timestamp = now1\<rparr> (storedCache st)))\<rparr>,
              local_url tkr # snd (fetchFromYahooFinanceDirect pf tkr))
        else (Inr (ErrorMarker tkr tkr), st,
              local_url tkr # snd (fetchFromYahooFinanceDirect pf tkr)))"
  by (simp add: fetchStockInfo_def getStockCache_def writeStockCache_def case_prod_beta)

lemma fetchStockInfo_failed:
  "get_resolves st \<Longrightarrow> freshEntry now0 (storedCache st) tkr = None \<Longrightarrow>
   fst (fetchFromLocalServer pf tkr) = None \<Longrightarrow>
   fst (fetchFromYahooFinanceDirect pf tkr) = Inl e \<Longrightarrow>
   fetchStockInfo pf now0 now1 st tkr
     = (Inr (ErrorMarker tkr tkr), st, local_url tkr # snd (fetchFromYahooFinanceDirect pf tkr))"
  by (simp add: fetchStockInfo_def getStockCache_def case_prod_beta)

lemma fetchStockInfo_bg_unreadable:
  "\<not> get_resolves st \<Longrightarrow> fetchStockInfo_bg pf now0 now1 st tkr = (Inl StorageRejected, st, [])"
  by (simp add: fetchStockInfo_bg_def getStockCache_def)

lemma fetchStockInfo_bg_hit:
  "get_resolves st \<Longrightarrow> freshEntry now0 (storedCache st) tkr = Some d \<Longrightarrow>
   fetchStockInfo_bg pf now0 now1 st tkr = (Inr (Info d), st, [])"
  by (simp add: fetchStockInfo_bg_def getStockCache_def)

lemma fetchStockInfo_bg_fetched:
  "get_resolves st \<Longrightarrow> freshEntry now0 (storedCache st) tkr = None \<Longrightarrow>
   fst (tryQuote_bg pf tkr) = Inr q \<Longrightarrow>
   fetchStockInfo_bg pf now0 now1 st tkr
     = (if set_resolves st
        then (Inr (Info q),
              st\<lparr>stockCache := Some (saveStockCache
                     (obj_put tkr \<lparr>data = q, timestamp = now1\<rparr> (storedCache st)))\<rparr>,
              snd (tryQuote_bg pf tkr))
        else (Inr (ErrorMarker tkr tkr), st, snd (tryQuote_bg pf tkr)))"
  by (simp add: fetchStockInfo_bg_def getStockCache_def writeStockCache_def case_prod_beta)

lemma fetchStockInfo_bg_failed:
  "get_resolves st \<Longrightarrow> freshEntry now0 (storedCache st) tkr = None \<Longrightarrow>
   fst (tryQuote_bg pf tkr) = Inl e \<Longrightarrow>
   fetchStockInfo_bg pf now0 now1 st tkr
     = (Inr (ErrorMarker tkr tkr), st, snd (tryQuote_bg pf tkr))"
  by (simp add: fetchStockInfo_bg_def getStockCache_def case_prod_beta)

lemma fetchStockInfo_cases:
  obtains (unreadable) "\<not> get_resolves st"
  | (hit) d where "get_resolves st" "freshEntry now0 (storedCache st) tkr = Some d"
  | (local) q where "get_resolves st" "freshEntry now0 (storedCache st) tkr = None"
      "fst (fetchFromLocalServer pf tkr) = Some q"
  | (direct) q where "get_resolves st" "freshEntry now0 (storedCache st) tkr = None"
      "fst (fetchFromLocalServer pf tkr) = None"
      "fst (fetchFromYahooFinanceDirect pf tkr) = Inr q"
  | (failed) e where "get_resolves st" "freshEntry now0 (storedCache st) tkr = None"
      "fst (fetchFromLocalServer pf tkr) = None"
      "fst (fetchFromYahooFinanceDirect pf tkr) = Inl e"
proof (cases "get_resolves st")
  case False
  with unreadable show ?thesis by blast
next
  case True
  show ?thesis
  proof (cases "freshEntry now0 (storedCache st) tkr")
    case None
    show ?thesis
    proof (cases "fst (fetchFromLocalServer pf tkr)")
      case no_local: None
      show ?thesis
        using True None no_local direct failed
        by (cases "fst (fetchFromYahooFinanceDirect pf tkr)") auto
    next
      case (Some q)
      with True None local show ?thesis by blast
    qed
  next
    case (Some d)
    with True hit show ?thesis by blast
  qed
qed

lemma fetchStockInfo_bg_cases:
  obtains (unreadable) "\<not> get_resolves st"
  | (hit) d where "get_resolves st" "freshEntry now0 (storedCache st) tkr = Some d"
  | (fetched) q where "get_resolves st" "freshEntry now0 (storedCache st) tkr = None"
      "fst (tryQuote_bg pf tkr) = Inr q"
  | (failed) e where "get_resolves st" "freshEntry now0 (storedCache st) tkr = None"
      "fst (tryQuote_bg pf tkr) = Inl e"
proof (cases "get_resolves st")
  case False
  with unreadable show ?thesis by blast
next
  case True
  show ?thesis
  proof (cases "freshEntry now0 (storedCache st) tkr")
    case None
    with True show ?thesis
      using fetched failed by (cases "fst (tryQuote_bg pf tkr)") auto
  next
    case (Some d)
    with True hit show ?thesis by blast
  qed
qed

lemmas fetchStockInfo_runs =
  fetchStockInfo_unreadable fetchStockInfo_hit fetchStockInfo_local fetchStockInfo_direct
  fetchStockInfo_failed

lemmas fetchStockInfo_bg_runs =
  fetchStockInfo_bg_unreadable fetchStockInfo_bg_hit fetchStockInfo_bg_fetched
  fetchStockInfo_bg_failed

lemma fetchStockInfo_settles:
  "get_resolves st \<Longrightarrow> \<exists>r. fst (fetchStockInfo pf now0 now1 st tkr) = Inr r"
  by (cases rule: fetchStockInfo_cases [where st = st and ?now0.0 = now0 and tkr = tkr and pf = pf])
     (simp_all add: fetchStockInfo_runs)

lemma fetchStockInfo_bg_settles:
  "get_resolves st \<Longrightarrow> \<exists>r. fst (fetchStockInfo_bg pf now0 now1 st tkr) = Inr r"
  by (cases rule: fetchStockInfo_bg_cases [where st = st and ?now0.0 = now0 and tkr = tkr and pf = pf])
     (simp_all add: fetchStockInfo_bg_runs)

lemma requests_fetchStockInfo:
  "snd (snd (fetchStockInfo pf now0 now1 st tkr))
     \<in> {[], [local_url tkr], [local_url tkr, quote_url tkr],
         local_url tkr # quote_url tkr # range_urls tkr}"
  using requests_fetchFromYahooFinanceDirect [of pf tkr]
  by (cases rule: fetchStockInfo_cases [where st = st and ?now0.0 = now0 and tkr = tkr and pf = pf])
     (auto simp: fetchStockInfo_runs)

lemma requests_fetchStockInfo_bg:
  "snd (snd (fetchStockInfo_bg pf now0 now1 st tkr))
     \<in> {[], [quote_url tkr], quote_url tkr # range_urls tkr}"
  using requests_tryQuote_bg [of pf tkr]
  by (cases rule: fetchStockInfo_bg_cases [where st = st and ?now0.0 = now0 and tkr = tkr and pf = pf])
     (auto simp: fetchStockInfo_bg_runs)

lemma miss_requests:
  "get_resolves st \<Longrightarrow> freshEntry now0 (storedCache st) tkr = None \<Longrightarrow>
   snd (snd (fetchStockInfo pf now0 now1 st tkr)) \<noteq> []"
  by (cases rule: fetchStockInfo_cases [where st = st and ?now0.0 = now0 and tkr = tkr and pf = pf])
     (simp_all add: fetchStockInfo_runs)

lemma miss_requests_bg:
  "get_resolves st \<Longrightarrow> freshEntry now0 (storedCache st) tkr = None \<Longrightarrow>
   snd (snd (fetchStockInfo_bg pf now0 now1 st tkr)) \<noteq> []"
  using requests_tryQuote_bg [of pf tkr]
  by (cases rule: fetchStockInfo_bg_cases [where st = st and ?now0.0 = now0 and tkr = tkr and pf = pf])
     (auto simp: fetchStockInfo_bg_runs)

lemma stored_fetchStockInfo:
  "fst (snd (fetchStockInfo pf now0 now1 st tkr)) = st \<or>
   (\<exists>d. get_resolves st \<and> set_resolves st \<and> freshEntry now0 (storedCache st) tkr = None \<and>
        fst (fetchStockInfo pf now0 now1 st tkr) = Inr (Info d) \<and>
        fst (snd (fetchStockInfo pf now0 now1 st tkr))
          = st\<lparr>stockCache := Some (saveStockCache
                 (obj_put tkr \<lparr>data = d, timestamp = now1\<rparr> (storedCache st)))\<rparr>)"
  by (cases rule: fetchStockInfo_cases [where st = st and ?now0.0 = now0 and tkr = tkr and pf = pf])
     (simp_all add: fetchStockInfo_runs)

lemma stored_fetchStockInfo_bg:
  "fst (snd (fetchStockInfo_bg pf now0 now1 st tkr)) = st \<or>
   (\<exists>d. get_resolves st \<and> set_resolves st \<and> freshEntry now0 (storedCache st) tkr = None \<and>
        fst (fetchStockInfo_bg pf now0 now1 st tkr) = Inr (Info d) \<and>
        fst (snd (fetchStockInfo_bg pf now0 now1 st tkr))
          = st\<lparr>stockCache := Some (saveStockCache
                 (obj_put tkr \<lparr>data = d, timestamp = now1\<rparr> (storedCache st)))\<rparr>)"
  by (cases rule: fetchStockInfo_bg_cases [where st = st and ?now0.0 = now0 and tkr = tkr and pf = pf])
     (simp_all add: fetchStockInfo_bg_runs)

lemma marker_fetchStockInfo:
  "fst (fetchStockInfo pf now0 now1 st tkr) = Inr (ErrorMarker a b) \<Longrightarrow> a = tkr \<and> b = tkr"
  by (cases rule: fetchStockInfo_cases [where st = st and ?now0.0 = now0 and tkr = tkr and pf = pf])
     (auto simp: fetchStockInfo_runs split: if_splits)

lemma marker_fetchStockInfo_bg:
  "fst (fetchStockInfo_bg pf now0 now1 st tkr) = Inr (ErrorMarker a b) \<Longrightarrow> a = tkr \<and> b = tkr"
  by (cases rule: fetchStockInfo_bg_cases [where st = st and ?now0.0 = now0 and tkr = tkr and pf = pf])
     (auto simp: fetchStockInfo_bg_runs split: if_splits)

subsection \<open>An entry just written stays in the cache\<close>

lemma put_survives:
  fixes cache :: "'d cache"
  assumes d: "distinct (map fst cache)" and k: "tkr \<noteq> ''__proto__''"
    and c: "length cache < 50 \<or> (\<forall>x \<in> set cache. fst x \<noteq> tkr \<longrightarrow> timestamp (snd x) < t)"
  shows "map_of (saveStockCache (obj_put tkr \<lparr>data = q, timestamp = t\<rparr> cache)) tkr
           = Some \<lparr>data = q, timestamp = t\<rparr>"
proof -
  let ?e = "\<lparr>data = q, timestamp = t\<rparr>"
  let ?held = "obj_put tkr ?e cache"
  let ?ts = "\<lambda>e :: string \<times> 'd cache_entry. timestamp (snd e)"
  let ?sorted = "array_sort (\<lambda>a b. ?ts b - ?ts a) ?held"
  have dh: "distinct (map fst ?held)"
    using d by (rule distinct_obj_put)
  then have ds: "distinct (map fst (saveStockCache ?held))"
    by (rule distinct_saveStockCache)
  have inh: "(tkr, ?e) \<in> set ?held"
    using k by (rule mem_obj_put)
  have mem: "(tkr, ?e) \<in> set (saveStockCache ?held)"
  proof (cases "length ?held > 50")
    case False
    with inh show ?thesis by (simp add: saveStockCache_def)
  next
    case True
    have "length ?held \<le> Suc (length cache)"
      by (rule length_obj_put_le)
    with True c have older: "\<forall>x \<in> set cache. fst x \<noteq> tkr \<longrightarrow> ?ts x < t"
      by auto
    have desc: "sorted_wrt (\<lambda>a b. ?ts b \<le> ?ts a) ?sorted"
      by (rule array_sort_desc)
    have ne: "?sorted \<noteq> []"
      using True by (metis length_array_sort less_nat_zero_code list.size(3))
    then have hd_take: "hd ?sorted \<in> set (take 50 ?sorted)"
      by (cases ?sorted) simp_all
    have "(tkr, ?e) \<in> set (take 50 ?sorted)"
    proof (rule ccontr)
      assume out: "(tkr, ?e) \<notin> set (take 50 ?sorted)"
      have "(tkr, ?e) \<in> set ?sorted"
        using inh by simp
      then have "(tkr, ?e) \<in> set (drop 50 ?sorted)"
        using out by (rule in_drop_if_not_in_take)
      then have le: "?ts (tkr, ?e) \<le> ?ts (hd ?sorted)"
        using sorted_wrt_take_drop [OF desc hd_take] by blast
      have "hd ?sorted \<in> set ?held"
        using hd_take set_take_subset [of 50 ?sorted] by auto
      then have "hd ?sorted = (tkr, ?e) \<or> (hd ?sorted \<in> set cache \<and> fst (hd ?sorted) \<noteq> tkr)"
        using d k by (rule set_obj_put_distinct [rotated 2])
      then show False
      proof
        assume "hd ?sorted = (tkr, ?e)"
        with hd_take out show False by simp
      next
        assume "hd ?sorted \<in> set cache \<and> fst (hd ?sorted) \<noteq> tkr"
        with older have "?ts (hd ?sorted) < t" by blast
        with le show False by simp
      qed
    qed
    with True show ?thesis by (simp add: saveStockCache_def)
  qed
  from ds mem show ?thesis by (rule map_of_is_SomeI)
qed

lemma put_then_fresh:
  fixes cache :: "'d cache"
  assumes "distinct (map fst cache)" and "tkr \<noteq> ''__proto__''"
    and "length cache < 50 \<or> (\<forall>x \<in> set cache. fst x \<noteq> tkr \<longrightarrow> timestamp (snd x) < now1)"
    and "now2 - now1 < CACHE_DURATION"
  shows "freshEntry now2 (saveStockCache (obj_put tkr \<lparr>data = q, timestamp = now1\<rparr> cache)) tkr
           = Some q"
  using put_survives [OF assms(1,2,3), of q] assms(4) by (simp add: freshEntry_def)

subsection \<open>Two concrete runs\<close>

lemma chart_only_direct:
  "fetchFromYahooFinanceDirect chart_only ''AAPL''
     = (Inr aapl_direct, quote_url ''AAPL'' # range_urls ''AAPL'')"
  by (simp add: fetchFromYahooFinanceDirect_def chart_only_def withRanges_def
      fetchPerformanceForRange_def performanceOfCloses_valid valid_closes_def applyMeta_def
      aapl_meta_def or_else_def fixed2_stub_def aapl_direct_def aapl_perf_def range_urls_def
      Let_def)

lemma chart_only_bg:
  "tryQuote_bg chart_only ''AAPL'' = (Inr aapl_core, quote_url ''AAPL'' # range_urls ''AAPL'')"
  by (simp add: tryQuote_bg_def chart_only_def withRanges_def
      fetchPerformanceForRange_def performanceOfCloses_valid valid_closes_def applyMeta_def
      aapl_meta_def or_else_def fixed2_stub_def aapl_core_def aapl_perf_def range_urls_def
      Let_def)

lemma chart_only_local: "fetchFromLocalServer chart_only tkr = (None, [local_url tkr])"
  by (simp add: fetchFromLocalServer_def chart_only_def)

lemma freshEntry_Nil [simp]: "freshEntry now [] t = None"
  by (simp add: freshEntry_def)

lemma aapl_not_index: "array_index ''AAPL'' = None"
  by code_simp

lemma put_aapl: "obj_put ''AAPL'' e [] = [(''AAPL'', e)]"
  by (simp add: obj_put_def aapl_not_index)

lemma storage_simps [simp]:
  "get_resolves (storing c) = True" "set_resolves (storing c) = True"
  "storedCache (storing c) = c"
  "get_resolves never_written = True" "set_resolves never_written = True"
  "storedCache never_written = []"
  "get_resolves unreadable = False"
  "get_resolves unwritable = True" "set_resolves unwritable = False"
  "storedCache unwritable = []"
  "never_written\<lparr>stockCache := Some c\<rparr> = storing c"
  by (simp_all add: storing_def never_written_def unreadable_def unwritable_def storedCache_def)

lemma chart_only_first:
  "fetchStockInfo chart_only 0 1000 never_written ''AAPL''
     = (Inr (Info aapl_direct), storing aapl_cached,
        local_url ''AAPL'' # quote_url ''AAPL'' # range_urls ''AAPL'')"
  by (simp add: fetchStockInfo_direct [where q = aapl_direct] freshEntry_def chart_only_local
      chart_only_direct saveStockCache_def aapl_cached_def put_aapl)

lemma chart_only_first_bg:
  "fetchStockInfo_bg chart_only 0 1000 never_written ''AAPL''
     = (Inr (Info aapl_core), storing aapl_core_cached,
        quote_url ''AAPL'' # range_urls ''AAPL'')"
  by (simp add: fetchStockInfo_bg_fetched [where q = aapl_core] freshEntry_def chart_only_bg
      saveStockCache_def aapl_core_cached_def put_aapl)

lemma offline_local: "fetchFromLocalServer offline tkr = (None, [local_url tkr])"
  by (simp add: fetchFromLocalServer_def offline_def)

lemma offline_direct:
  "fetchFromYahooFinanceDirect offline tkr = (Inl FetchRejected, [quote_url tkr])"
  by (simp add: fetchFromYahooFinanceDirect_def offline_def)

lemma offline_bg: "tryQuote_bg offline tkr = (Inl FetchRejected, [quote_url tkr])"
  by (simp add: tryQuote_bg_def offline_def)

section \<open>The resolver's contract\<close>







text \<open>
  C8. A quote the direct adapter returns carries the tag \<open>yahoo-direct\<close> (the
  specification's source tag \<open>direct\<close>), a \<open>null\<close> market capitalisation and the literal
  \<open>N/A\<close> for its formatted value. When the storage calls resolve, the cache has no fresh
  entry and the local adapter answers \<open>null\<close>, that quote is what \<open>fetchStockInfo\<close>
  answers; and whatever the storage write does, a quote answered when there is no fresh
  entry and the local adapter answers \<open>null\<close> has these three values.
\<close>

theorem direct_quote_has_no_market_cap:
  "(fst (fetchFromYahooFinanceDirect pf tkr) = Inr q \<longrightarrow>
      source q = ''yahoo-direct'' \<and> marketCap q = Null \<and> marketCapFormatted q = ''N/A'') \<and>
   (get_resolves st \<and> set_resolves st \<and> freshEntry now0 (storedCache st) tkr = None \<and>
    fst (fetchFromLocalServer pf tkr) = None \<and>
    fst (fetchFromYahooFinanceDirect pf tkr) = Inr q \<longrightarrow>
      fst (fetchStockInfo pf now0 now1 st tkr) = Inr (Info q) \<and>
      source q = ''yahoo-direct'' \<and> marketCap q = Null \<and> marketCapFormatted q = ''N/A'') \<and>
   (freshEntry now0 (storedCache st) tkr = None \<and> fst (fetchFromLocalServer pf tkr) = None \<and>
    fst (fetchStockInfo pf now0 now1 st tkr) = Inr (Info d) \<longrightarrow>
      source d = ''yahoo-direct'' \<and> marketCap d = Null \<and> marketCapFormatted d = ''N/A'')"
proof -
  have any: "source d = ''yahoo-direct'' \<and> marketCap d = Null \<and> marketCapFormatted d = ''N/A''"
    if "freshEntry now0 (storedCache st) tkr = None" "fst (fetchFromLocalServer pf tkr) = None"
      "fst (fetchStockInfo pf now0 now1 st tkr) = Inr (Info d)"
    using that
    by (cases rule: fetchStockInfo_cases [where st = st and ?now0.0 = now0 and tkr = tkr and pf = pf])
       (auto simp: fetchStockInfo_runs dest: direct_quote_fields split: if_splits)
  show ?thesis
    using direct_quote_fields [of pf tkr q] any
    by (simp add: fetchStockInfo_direct)
qed

theorem direct_quote_has_no_market_cap_witness:
  "fst (fetchFromLocalServer chart_only ''AAPL'') = None \<and>
   fst (fetchFromYahooFinanceDirect chart_only ''AAPL'') = Inr aapl_direct \<and>
   currentPrice aapl_direct = Val 150.25 \<and>
   fst (fetchStockInfo chart_only 0 1000 never_written ''AAPL'') = Inr (Info aapl_direct) \<and>
   source aapl_direct = ''yahoo-direct'' \<and> marketCap aapl_direct = Null \<and>
   marketCapFormatted aapl_direct = ''N/A''"
proof -
  have e: "freshEntry 0 ([] :: stock_info cache) ''AAPL'' = None"
    by (simp add: freshEntry_def)
  have p: "currentPrice aapl_direct = Val 150.25"
    by (simp add: aapl_direct_def)
  show ?thesis
    using e p
      direct_quote_has_no_market_cap
        [where pf = chart_only and tkr = "''AAPL''" and q = aapl_direct and ?now0.0 = 0
          and st = never_written and ?now1.0 = 1000 and d = aapl_direct]
    by (simp add: chart_only_local chart_only_direct)
qed





end
